theory Spec2Isabelle
  imports Main
begin

section \<open>Python values, exceptions and the observable trace\<close>

text \<open>
  Values that \<^verbatim>\<open>toml.load\<close> can put into \<^verbatim>\<open>dc.config\<close>. A table is an association
  list, looked up with \<open>map_of\<close> as \<^verbatim>\<open>dict.get\<close> does. Floats and date-times are left
  out: the program never inspects them.
\<close>

datatype toml =
    TStr string
  | TInt int
  | TBool bool
  | TArray "toml list"
  | TTable "(string \<times> toml) list"

type_synonym table = "(string \<times> toml) list"

text \<open>Python truthiness, as used by \<^verbatim>\<open>if logfile_name:\<close> and \<^verbatim>\<open>if not ...get(...)\<close>.\<close>

fun truthy :: "toml \<Rightarrow> bool" where
  "truthy (TStr s) = (s \<noteq> [])"
| "truthy (TInt i) = (i \<noteq> 0)"
| "truthy (TBool b) = b"
| "truthy (TArray xs) = (xs \<noteq> [])"
| "truthy (TTable kvs) = (kvs \<noteq> [])"

text \<open>
  Exceptions. The payload of an exception is the text \<^verbatim>\<open>str(e)\<close> gives; for
  \<open>AttributeError\<close> it is the name of the attribute that was not found.
  \<open>SystemExit\<close>, \<open>KeyboardInterrupt\<close> and \<open>OtherBaseException\<close> derive from
  \<^verbatim>\<open>BaseException\<close> only, so \<^verbatim>\<open>except Exception\<close> does not catch them.
\<close>

datatype exit_arg = ExitCode int | ExitMsg string

datatype exn =
    AttributeError string
  | FileNotFoundError string
  | TomlDecodeError string
  | TypeError string
  | ValueError string
  | OSError string
  | OtherException string
  | KeyboardInterrupt
  | SystemExit exit_arg
  | OtherBaseException string

fun is_Exception :: "exn \<Rightarrow> bool" where
  "is_Exception KeyboardInterrupt = False"
| "is_Exception (SystemExit a) = False"
| "is_Exception (OtherBaseException s) = False"
| "is_Exception e = True"

text \<open>
  A log message is kept as the f-string that builds it: literal text, an interpolated
  configuration value (\<^verbatim>\<open>{file_level}\<close>) or an interpolated exception (\<^verbatim>\<open>{e}\<close>).
\<close>

datatype frag = Txt string | Val toml | Err exn

type_synonym message = "frag list"

datatype log_level = DEBUG | INFO | WARNING | ERROR | CRITICAL

datatype stream = Console | File string

record handler =
  h_stream :: stream
  h_level :: int
  h_formatter :: string

record logger =
  lg_handlers :: "handler list"
  lg_level :: int

datatype module_manager = ModuleManager
datatype events = Events
datatype io_ports_shelf = IoPortsShelf

text \<open>
  Everything the program does to the outside is appended to a trace: entering a method
  of \<^verbatim>\<open>DoorLockDClient\<close>, a call on the logger, a handler added to the root logger, a
  collaborator constructed, a hook installed, a call on the module manager.
\<close>

datatype event =
    Enter string
  | Log log_level message
  | OpenLogFile string
  | AddHandler handler
  | SetLevel int
  | NewEvents
  | NewModuleManager
  | SetExcepthook
  | SetSignal int
  | LoadAll toml
  | DoAll string
  | MainLoop

text \<open>
  The global data container \<^verbatim>\<open>dc\<close> (a plain attribute holder), the root logger of the
  \<^verbatim>\<open>logging\<close> module, and the trace.
\<close>

record state =
  dc_app_name :: string
  dc_app_ver :: string
  dc_app_name_ver :: string
  dc_config :: table
  dc_module :: "module_manager option"
  dc_e :: "events option"
  dc_logger :: "logger option"
  dc_io_port :: "io_ports_shelf option"
  root_logger :: logger
  trace :: "event list"

text \<open>
  What the collaborators answer. None of them is part of \<^verbatim>\<open>DoorLockDClient.py\<close>, so
  each is a parameter: \<open>None\<close> means the call returns normally, \<open>Some e\<close> that it
  raises \<open>e\<close>. \<open>abort_msg\<close> and \<open>exit_msg\<close> are the attributes of the module manager as
  \<^verbatim>\<open>shutdown\<close> reads them.
\<close>

record env =
  git_describe :: "string option"
  toml_load :: "exn + table"
  file_handler :: "string \<Rightarrow> exn option"
  events_new :: "exn option"
  module_manager_new :: "exn option"
  signal_signal :: "int \<Rightarrow> exn option"
  load_all :: "toml \<Rightarrow> exn option"
  do_all :: "string \<Rightarrow> exn option"
  module_main_loop :: "exn option"
  abort_msg :: "string option"
  exit_msg :: "string option"

section \<open>Computations that may raise\<close>

type_synonym 'a comp = "state \<Rightarrow> (exn + 'a) \<times> state"

definition ret :: "'a \<Rightarrow> 'a comp" where
  "ret x s = (Inr x, s)"

definition raise :: "exn \<Rightarrow> 'a comp" where
  "raise e s = (Inl e, s)"

definition bind :: "'a comp \<Rightarrow> ('a \<Rightarrow> 'b comp) \<Rightarrow> 'b comp" where
  "bind m f s = (case m s of (Inl e, s') \<Rightarrow> (Inl e, s') | (Inr x, s') \<Rightarrow> f x s')"

definition seq :: "unit comp \<Rightarrow> 'a comp \<Rightarrow> 'a comp" where
  "seq m n = bind m (\<lambda>_. n)"

text \<open>
  \<^verbatim>\<open>try: body except ...: handler\<close>. The handler function returns \<open>None\<close> for an
  exception that no \<^verbatim>\<open>except\<close> clause matches; an exception raised inside a handler
  propagates.
\<close>

definition try_catch :: "'a comp \<Rightarrow> (exn \<Rightarrow> 'a comp option) \<Rightarrow> 'a comp" where
  "try_catch body h s =
     (case body s of
        (Inr x, s') \<Rightarrow> (Inr x, s')
      | (Inl e, s') \<Rightarrow> (case h e of None \<Rightarrow> (Inl e, s') | Some hdl \<Rightarrow> hdl s'))"

text \<open>
  \<^verbatim>\<open>try: body finally: fin\<close>. The \<^verbatim>\<open>finally\<close> block runs on every way out of the body;
  when it raises, its exception replaces the outcome of the body.
\<close>

definition try_finally :: "'a comp \<Rightarrow> unit comp \<Rightarrow> 'a comp" where
  "try_finally body fin s =
     (case body s of (r, s') \<Rightarrow>
        (case fin s' of (Inl e, s'') \<Rightarrow> (Inl e, s'') | (Inr _, s'') \<Rightarrow> (r, s'')))"

definition emit :: "event \<Rightarrow> unit comp" where
  "emit ev s = (Inr (), s\<lparr>trace := trace s @ [ev]\<rparr>)"

definition lift :: "exn + 'a \<Rightarrow> 'a comp" where
  "lift r s = (r, s)"

section \<open>The logger and the configuration\<close>

fun method_name :: "log_level \<Rightarrow> string" where
  "method_name DEBUG = ''debug''"
| "method_name INFO = ''info''"
| "method_name WARNING = ''warning''"
| "method_name ERROR = ''error''"
| "method_name CRITICAL = ''critical''"

text \<open>
  \<^verbatim>\<open>dc.logger.info(...)\<close> and its siblings: while \<^verbatim>\<open>dc.logger\<close> is \<^verbatim>\<open>None\<close> the attribute
  lookup raises \<open>AttributeError\<close>.
\<close>

definition log :: "log_level \<Rightarrow> message \<Rightarrow> unit comp" where
  "log lv m s =
     (case dc_logger s of
        None \<Rightarrow> (Inl (AttributeError (method_name lv)), s)
      | Some l \<Rightarrow> (Inr (), s\<lparr>trace := trace s @ [Log lv m]\<rparr>))"

text \<open>
  \<^verbatim>\<open>dc.config.get("doorlockd", {}).get(key)\<close>: \<open>None\<close> when the section or the key is
  absent; a \<^verbatim>\<open>doorlockd\<close> entry that is no table has no \<^verbatim>\<open>get\<close>.
\<close>

definition doorlockd_lookup :: "table \<Rightarrow> string \<Rightarrow> exn + toml option" where
  "doorlockd_lookup cfg key =
     (case map_of cfg ''doorlockd'' of
        None \<Rightarrow> Inr None
      | Some (TTable t) \<Rightarrow> Inr (map_of t key)
      | Some _ \<Rightarrow> Inl (AttributeError ''get''))"

definition doorlockd_get :: "string \<Rightarrow> toml option comp" where
  "doorlockd_get key s = (doorlockd_lookup (dc_config s) key, s)"

definition get_default :: "toml option \<Rightarrow> toml \<Rightarrow> toml" where
  "get_default v d = (case v of None \<Rightarrow> d | Some x \<Rightarrow> x)"

text \<open>
  \<^verbatim>\<open>str.upper\<close> on the ASCII letters. A cased letter outside ASCII is left as it is,
  where Python may map it to ASCII letters (U+0131 to \<^verbatim>\<open>I\<close>, U+017F to \<^verbatim>\<open>S\<close>): level
  names written with such letters are outside this model.
\<close>

definition upper_char :: "char \<Rightarrow> char" where
  "upper_char c =
     (case map_of (zip ''abcdefghijklmnopqrstuvwxyz'' ''ABCDEFGHIJKLMNOPQRSTUVWXYZ'') c of
        None \<Rightarrow> c | Some u \<Rightarrow> u)"

definition upper :: "string \<Rightarrow> string" where
  "upper s = map upper_char s"

text \<open>
  \<^verbatim>\<open>handler.setLevel(getattr(logging, name))\<close> for an upper-cased name: the eight level
  names of the \<^verbatim>\<open>logging\<close> module give their number; \<^verbatim>\<open>BASIC_FORMAT\<close> and \<^verbatim>\<open>_STYLES\<close>
  are attributes that \<^verbatim>\<open>setLevel\<close> rejects; any other name is no attribute.
\<close>

definition logging_level :: "string \<Rightarrow> exn + int" where
  "logging_level name =
     (if name = ''CRITICAL'' \<or> name = ''FATAL'' then Inr 50
      else if name = ''ERROR'' then Inr 40
      else if name = ''WARNING'' \<or> name = ''WARN'' then Inr 30
      else if name = ''INFO'' then Inr 20
      else if name = ''DEBUG'' then Inr 10
      else if name = ''NOTSET'' then Inr 0
      else if name = ''BASIC_FORMAT'' then Inl (ValueError name)
      else if name = ''_STYLES'' then Inl (TypeError name)
      else Inl (AttributeError name))"

text \<open>\<^verbatim>\<open>getattr(logging, v.upper())\<close>: only a string has \<^verbatim>\<open>upper\<close>.\<close>

fun level_of :: "toml \<Rightarrow> exn + int" where
  "level_of (TStr s) = logging_level (upper s)"
| "level_of v = Inl (AttributeError ''upper'')"

definition formatter :: string where
  "formatter = ''%(asctime)s - %(name)s - %(levelname)s - %(message)s''"

definition add_handler :: "handler \<Rightarrow> unit comp" where
  "add_handler h s =
     (Inr (), s\<lparr>root_logger := (root_logger s)\<lparr>lg_handlers := lg_handlers (root_logger s) @ [h]\<rparr>,
               trace := trace s @ [AddHandler h]\<rparr>)"

text \<open>\<^verbatim>\<open>logging.FileHandler(logfile_name)\<close>: a path must be a string; opening may fail.\<close>

fun new_file_handler :: "env \<Rightarrow> toml \<Rightarrow> string comp" where
  "new_file_handler env (TStr name) =
     (case file_handler env name of
        Some e \<Rightarrow> raise e
      | None \<Rightarrow> seq (emit (OpenLogFile name)) (ret name))"
| "new_file_handler env v = raise (TypeError ''expected str, bytes or os.PathLike object'')"

text \<open>\<^verbatim>\<open>logger.setLevel(min([handler.level for handler in logger.handlers]))\<close>\<close>

definition set_overall_level :: "unit comp" where
  "set_overall_level s =
     (case map h_level (lg_handlers (root_logger s)) of
        [] \<Rightarrow> (Inl (ValueError ''min() arg is an empty sequence''), s)
      | l # ls \<Rightarrow>
          (Inr (), s\<lparr>root_logger := (root_logger s)\<lparr>lg_level := min_list (l # ls)\<rparr>,
                    trace := trace s @ [SetLevel (min_list (l # ls))]\<rparr>))"

section \<open>DoorLockDClient\<close>

text \<open>
  \<^verbatim>\<open>get_git_version\<close>: the output of \<^verbatim>\<open>git describe\<close>, or \<^verbatim>\<open>"version-unknown"\<close> when the
  command fails (the warning it prints then is not part of the trace).
\<close>

definition get_git_version :: "env \<Rightarrow> string" where
  "get_git_version env =
     (case git_describe env of Some version \<Rightarrow> version | None \<Rightarrow> ''version-unknown'')"

text \<open>
  \<^verbatim>\<open>__init__\<close>: \<^verbatim>\<open>setup_application_info\<close> followed by \<^verbatim>\<open>setup_data_container\<close>, on a
  process whose root logger has no handler yet and the default level WARNING.
\<close>

definition setup_application_info :: "env \<Rightarrow> state \<Rightarrow> state" where
  "setup_application_info env s =
     s\<lparr>dc_app_name := ''doorlockd-client'',
       dc_app_ver := get_git_version env,
       dc_app_name_ver := ''doorlockd-client'' @ ''('' @ get_git_version env @ '')''\<rparr>"

definition setup_data_container :: "state \<Rightarrow> state" where
  "setup_data_container s =
     s\<lparr>dc_config := [], dc_module := None, dc_e := None, dc_logger := None,
       dc_io_port := Some IoPortsShelf\<rparr>"

definition fresh_process :: state where
  "fresh_process =
     \<lparr>dc_app_name = [], dc_app_ver = [], dc_app_name_ver = [], dc_config = [],
      dc_module = None, dc_e = None, dc_logger = None, dc_io_port = None,
      root_logger = \<lparr>lg_handlers = [], lg_level = 30\<rparr>, trace = []\<rparr>"

definition init :: "env \<Rightarrow> state" where
  "init env = setup_data_container (setup_application_info env fresh_process)"

text \<open>
  The non-ASCII prefixes of three messages, byte for byte as the source file has them,
  and \<^verbatim>\<open>load_configuration\<close>.
\<close>

definition glyph_cross :: string where
  "glyph_cross = [CHR 0xE2, CHR 0x80, CHR 0x9A, CHR 0xC3, CHR 0xB9, CHR 0xC3, CHR 0xA5]"

definition glyph_rocket :: string where
  "glyph_rocket = [CHR 0xEF, CHR 0xA3, CHR 0xBF, CHR 0xC3, CHR 0xBC, CHR 0xC3, CHR 0xB6, CHR 0xC3, CHR 0x84]"

definition glyph_wrench :: string where
  "glyph_wrench = [CHR 0xEF, CHR 0xA3, CHR 0xBF, CHR 0xC3, CHR 0xBC, CHR 0xC3, CHR 0xAE, CHR 0xC3, CHR 0x9F]"

definition toml_load_config :: "env \<Rightarrow> unit comp" where
  "toml_load_config env s =
     (case toml_load env of
        Inl e \<Rightarrow> (Inl e, s)
      | Inr cfg \<Rightarrow> (Inr (), s\<lparr>dc_config := cfg\<rparr>))"

definition load_configuration :: "env \<Rightarrow> unit comp" where
  "load_configuration env =
     seq (emit (Enter ''load_configuration''))
       (try_catch
          (seq (toml_load_config env)
               (log INFO [Txt ''Configuration loaded successfully'']))
          (\<lambda>e. case e of
                  FileNotFoundError d \<Rightarrow>
                    Some (raise (SystemExit (ExitMsg
                      (glyph_cross @ '' Configuration file 'config.ini' not found.''))))
                | TomlDecodeError d \<Rightarrow>
                    Some (raise (SystemExit (ExitMsg
                      (glyph_cross @ '' Invalid configuration file: '' @ d))))
                | _ \<Rightarrow> None))"

text \<open>The branch of \<^verbatim>\<open>setup_logging\<close> taken when \<^verbatim>\<open>logfile_name\<close> is truthy.\<close>

definition file_logging :: "env \<Rightarrow> toml \<Rightarrow> unit comp" where
  "file_logging env logfile_name =
     bind (new_file_handler env logfile_name) (\<lambda>name.
     bind (doorlockd_get ''logfile_level'') (\<lambda>v.
     bind (lift (level_of (get_default v (TStr ''INFO'')))) (\<lambda>lv.
     seq (add_handler \<lparr>h_stream = File name, h_level = lv, h_formatter = formatter\<rparr>)
         (log INFO [Txt ''Logging to file: '', Val logfile_name, Txt '' (level: '',
                    Val (get_default v (TStr ''INFO'')), Txt '')'']))))"

definition assign_logger :: "unit comp" where
  "assign_logger s = (Inr (), s\<lparr>dc_logger := Some (root_logger s)\<rparr>)"

text \<open>
  \<^verbatim>\<open>setup_logging\<close>, block by block as the source comments name them: the console
  handler, the file handler if configured, the overall level and the assignment of
  \<^verbatim>\<open>dc.logger\<close>, the warning about the deprecated key.
\<close>

definition console_logging :: "unit comp" where
  "console_logging =
     bind (doorlockd_get ''stderr_level'') (\<lambda>v.
     bind (lift (level_of (get_default v (TStr ''INFO'')))) (\<lambda>lv.
     add_handler \<lparr>h_stream = Console, h_level = lv, h_formatter = formatter\<rparr>))"

definition file_logging_if_configured :: "env \<Rightarrow> unit comp" where
  "file_logging_if_configured env =
     bind (doorlockd_get ''logfile_name'') (\<lambda>logfile_name.
       case logfile_name of
         None \<Rightarrow> ret ()
       | Some n \<Rightarrow> if truthy n then file_logging env n else ret ())"

definition warn_deprecated :: "unit comp" where
  "warn_deprecated =
     bind (doorlockd_get ''log_level'') (\<lambda>deprecated_log_level.
       case deprecated_log_level of
         None \<Rightarrow> ret ()
       | Some d \<Rightarrow>
           if truthy d
           then emit (Log WARNING
                  [Txt ''Deprecated config 'doorlockd.log_level' will be ignored: '', Val d])
           else ret ())"

definition setup_logging :: "env \<Rightarrow> unit comp" where
  "setup_logging env =
     seq (emit (Enter ''setup_logging''))
    (seq console_logging
    (seq (file_logging_if_configured env)
    (seq set_overall_level
    (seq assign_logger
         warn_deprecated))))"

definition construct :: "exn option \<Rightarrow> event \<Rightarrow> unit comp" where
  "construct r ev = (case r of Some e \<Rightarrow> raise e | None \<Rightarrow> emit ev)"

definition setup_event_system :: "env \<Rightarrow> unit comp" where
  "setup_event_system env =
     seq (emit (Enter ''setup_event_system''))
    (seq (construct (events_new env) NewEvents)
    (seq (\<lambda>s. (Inr (), s\<lparr>dc_e := Some Events\<rparr>))
         (log DEBUG [Txt ''Event system initialized''])))"

definition setup_module_manager :: "env \<Rightarrow> unit comp" where
  "setup_module_manager env =
     seq (emit (Enter ''setup_module_manager''))
    (seq (construct (module_manager_new env) NewModuleManager)
    (seq (\<lambda>s. (Inr (), s\<lparr>dc_module := Some ModuleManager\<rparr>))
         (log DEBUG [Txt ''Module manager initialized''])))"

definition setup_exception_handling :: "unit comp" where
  "setup_exception_handling =
     seq (emit (Enter ''setup_exception_handling''))
    (seq (emit SetExcepthook)
         (log DEBUG [Txt ''Global exception handler configured'']))"

definition SIGINT :: int where "SIGINT = 2"
definition SIGTERM :: int where "SIGTERM = 15"

definition setup_signal_handlers :: "env \<Rightarrow> unit comp" where
  "setup_signal_handlers env =
     seq (emit (Enter ''setup_signal_handlers''))
    (seq (construct (signal_signal env SIGINT) (SetSignal SIGINT))
    (seq (construct (signal_signal env SIGTERM) (SetSignal SIGTERM))
         (log DEBUG [Txt ''Signal handlers configured''])))"

text \<open>
  A method call on \<^verbatim>\<open>dc.module\<close>: \<open>AttributeError\<close> while \<^verbatim>\<open>dc.module\<close> is \<^verbatim>\<open>None\<close>;
  otherwise the call is made (and recorded) and returns or raises as the module manager
  decides.
\<close>

definition module_call :: "string \<Rightarrow> event \<Rightarrow> exn option \<Rightarrow> unit comp" where
  "module_call name ev r s =
     (case dc_module s of
        None \<Rightarrow> (Inl (AttributeError name), s)
      | Some m \<Rightarrow>
          (case r of
             None \<Rightarrow> (Inr (), s\<lparr>trace := trace s @ [ev]\<rparr>)
           | Some e \<Rightarrow> (Inl e, s\<lparr>trace := trace s @ [ev]\<rparr>)))"

definition module_do_all :: "env \<Rightarrow> string \<Rightarrow> unit comp" where
  "module_do_all env phase = module_call ''do_all'' (DoAll phase) (do_all env phase)"

definition module_attr :: "string \<Rightarrow> 'a \<Rightarrow> 'a comp" where
  "module_attr name v s =
     (case dc_module s of None \<Rightarrow> (Inl (AttributeError name), s) | Some m \<Rightarrow> (Inr v, s))"

text \<open>\<^verbatim>\<open>dc.config.get("module", {})\<close>\<close>

definition config_get_module :: "toml comp" where
  "config_get_module s = (Inr (get_default (map_of (dc_config s) ''module'') (TTable [])), s)"

definition initialize_modules :: "env \<Rightarrow> bool comp" where
  "initialize_modules env =
     seq (emit (Enter ''initialize_modules''))
       (try_catch
          (bind config_get_module (\<lambda>module_configs.
           seq (module_call ''load_all'' (LoadAll module_configs) (load_all env module_configs))
          (seq (module_do_all env ''setup'')
          (seq (module_do_all env ''enable'')
          (seq (log INFO [Txt ''All modules initialized successfully''])
               (ret True))))))
          (\<lambda>e. if is_Exception e
                then Some (seq (log ERROR [Txt ''Failed to initialize modules: '', Err e])
                               (ret False))
                else None))"

definition main_loop :: "env \<Rightarrow> unit comp" where
  "main_loop env =
     seq (emit (Enter ''main_loop''))
       (try_catch
          (seq (\<lambda>s. log INFO [Txt (glyph_rocket @ '' ''), Txt (dc_app_name_ver s),
                               Txt '' entering main loop''] s)
               (module_call ''main_loop'' MainLoop (module_main_loop env)))
          (\<lambda>e. if e = KeyboardInterrupt
                then Some (log INFO [Txt ''Main loop interrupted by user''])
                else if is_Exception e
                then Some (log ERROR [Txt ''Main loop error: '', Err e])
                else None))"

text \<open>Truthiness and text of \<^verbatim>\<open>abort_msg\<close> / \<^verbatim>\<open>exit_msg\<close> (\<^verbatim>\<open>None\<close> or a string).\<close>

definition truthy_msg :: "string option \<Rightarrow> bool" where
  "truthy_msg v = (case v of None \<Rightarrow> False | Some m \<Rightarrow> m \<noteq> [])"

definition msg_text :: "string option \<Rightarrow> string" where
  "msg_text v = (case v of None \<Rightarrow> ''None'' | Some m \<Rightarrow> m)"

definition log_shutdown_reason :: "env \<Rightarrow> unit comp" where
  "log_shutdown_reason env =
     bind (module_attr ''abort_msg'' (abort_msg env)) (\<lambda>a.
       if truthy_msg a
       then log WARNING [Txt ''Shutdown due to abort: '', Txt (msg_text a)]
       else bind (module_attr ''exit_msg'' (exit_msg env)) (\<lambda>x.
         if truthy_msg x
         then log INFO [Txt ''Shutdown requested: '', Txt (msg_text x)]
         else log INFO [Txt ''Normal shutdown completed'']))"

definition shutdown :: "env \<Rightarrow> unit comp" where
  "shutdown env =
     seq (emit (Enter ''shutdown''))
    (seq (log INFO [Txt ''Initiating shutdown sequence...''])
    (seq (module_do_all env ''disable'')
    (seq (module_do_all env ''teardown'')
         (log_shutdown_reason env))))"

text \<open>
  The \<^verbatim>\<open>try\<close> block of \<^verbatim>\<open>run\<close>, in two parts: the initialization sequence (lines
  213 to 220) and the part that depends on \<^verbatim>\<open>enable_modules\<close> (lines 223 to 229). The
  \<^verbatim>\<open>return\<close> of the disabled branch ends the block, so nothing follows it here either.
\<close>

definition initialization_sequence :: "env \<Rightarrow> unit comp" where
  "initialization_sequence env =
     seq (load_configuration env)
    (seq (setup_logging env)
    (seq (\<lambda>s. log INFO [Txt (glyph_wrench @ '' ''), Txt (dc_app_name_ver s),
                         Txt '' starting up...''] s)
    (seq (setup_event_system env)
    (seq (setup_module_manager env)
    (seq setup_exception_handling
         (setup_signal_handlers env))))))"

definition initialize_and_run :: "env \<Rightarrow> unit comp" where
  "initialize_and_run env =
     bind (doorlockd_get ''enable_modules'') (\<lambda>v.
       if \<not> truthy (get_default v (TBool True))
       then log WARNING [Txt ''Modules are disabled in configuration'']
       else bind (initialize_modules env) (\<lambda>ok. if ok then main_loop env else ret ()))"

definition fatal_startup_error :: "exn \<Rightarrow> unit comp option" where
  "fatal_startup_error e =
     (if is_Exception e
      then Some (seq (log CRITICAL [Txt ''Fatal error during startup: '', Err e])
                     (raise (SystemExit (ExitCode 1))))
      else None)"

definition run :: "env \<Rightarrow> unit comp" where
  "run env =
     seq (emit (Enter ''run''))
       (try_finally
          (try_catch (seq (initialization_sequence env) (initialize_and_run env))
                     fatal_startup_error)
          (shutdown env))"

text \<open>
  \<^verbatim>\<open>main\<close>, and the exit status the interpreter gives the process: 0 after a normal
  return, the code of a \<^verbatim>\<open>SystemExit\<close> modulo 256 (1 when its argument is a message), 1 after any
  other uncaught exception, 130 after an uncaught \<^verbatim>\<open>KeyboardInterrupt\<close>.
\<close>

definition main :: "env \<Rightarrow> (exn + unit) \<times> state" where
  "main env = run env (init env)"

fun exit_status :: "exn + unit \<Rightarrow> int" where
  "exit_status (Inr u) = 0"
| "exit_status (Inl (SystemExit (ExitCode n))) = n mod 256"
| "exit_status (Inl (SystemExit (ExitMsg m))) = 1"
| "exit_status (Inl KeyboardInterrupt) = 130"
| "exit_status (Inl e) = 1"

section \<open>The termination reason and the two gateways\<close>

text \<open>
  Modelled from the spec: the \<^verbatim>\<open>TerminationReason\<close> of section 3, a tagged value that is
  empty or holds an abort (message and cause) or an exit (message). The class
  \<^verbatim>\<open>ModuleManager\<close> of \<^verbatim>\<open>libs/Module.py\<close>, which records the requests, is not among the
  sources.
\<close>

datatype termination_reason = NoReason | Abort message exn | Exit message

text \<open>
  Modelled from the spec: the module manager as far as the requests go, that is the
  recorded reason and the requests that arrived later, which are discarded and logged as
  superseded (sections 4.2, 4.3 and 5). \<^verbatim>\<open>ModuleManager\<close> itself is missing.
\<close>

record manager =
  reason :: termination_reason
  superseded :: "termination_reason list"

definition new_manager :: manager where
  "new_manager = \<lparr>reason = NoReason, superseded = []\<rparr>"

text \<open>
  Modelled from the spec: \<^verbatim>\<open>ModuleManager.abort\<close> and \<^verbatim>\<open>ModuleManager.exit\<close>, both missing
  from the sources, as the one atomic set-if-empty operation of section 5: the request
  is recorded when no reason is recorded yet, and is superseded otherwise.
\<close>

definition request :: "termination_reason \<Rightarrow> manager \<Rightarrow> manager" where
  "request r m =
     (if reason m = NoReason then m\<lparr>reason := r\<rparr>
      else m\<lparr>superseded := superseded m @ [r]\<rparr>)"

text \<open>
  The two handlers as \<^verbatim>\<open>setup_exception_handling\<close> and \<^verbatim>\<open>setup_signal_handlers\<close> define
  them: each composes its message and forwards one request. An interleaving of the two
  gateways is a list of calls, each one atomic step.
\<close>

definition global_exception_handler :: "exn \<Rightarrow> manager \<Rightarrow> manager" where
  "global_exception_handler exc_value =
     request (Abort [Txt ''Uncaught exception in thread: '', Err exc_value] exc_value)"

definition signal_handler :: "int \<Rightarrow> manager \<Rightarrow> manager" where
  "signal_handler signum =
     request (Exit [Txt ''Received '', Txt (if signum = SIGINT then ''SIGINT'' else ''SIGTERM'')])"

datatype gateway_call = Signal int | ThreadException exn

fun deliver :: "gateway_call \<Rightarrow> manager \<Rightarrow> manager" where
  "deliver (Signal signum) = signal_handler signum"
| "deliver (ThreadException exc_value) = global_exception_handler exc_value"

text \<open>What a call asks for, and the two views of a reason that must never hold together.\<close>

fun requested :: "gateway_call \<Rightarrow> termination_reason" where
  "requested (Signal signum) =
     Exit [Txt ''Received '', Txt (if signum = SIGINT then ''SIGINT'' else ''SIGTERM'')]"
| "requested (ThreadException exc_value) =
     Abort [Txt ''Uncaught exception in thread: '', Err exc_value] exc_value"

fun abort_set :: "termination_reason \<Rightarrow> bool" where
  "abort_set (Abort msg cause) = True"
| "abort_set r = False"

fun exit_set :: "termination_reason \<Rightarrow> bool" where
  "exit_set (Exit msg) = True"
| "exit_set r = False"

section \<open>Rendering a log line\<close>

text \<open>
  What \<^verbatim>\<open>logging.Formatter\<close> does with a \<^verbatim>\<open>%\<close>-style format: every \<^verbatim>\<open>%(key)s\<close> is replaced
  by the text of the record's attribute \<open>key\<close>, \<^verbatim>\<open>%%\<close> is a percent sign, any other text
  is copied; \<open>None\<close> stands for the error Python raises on a malformed format or an
  unknown key.
\<close>

datatype fmt_mode = Literal | Percent | Key string | Conv string

fun render :: "fmt_mode \<Rightarrow> (string \<Rightarrow> string option) \<Rightarrow> string \<Rightarrow> string option" where
  "render Literal f [] = Some []"
| "render Percent f [] = None"
| "render (Key k) f [] = None"
| "render (Conv k) f [] = None"
| "render Literal f (c # cs) =
     (if c = CHR ''%'' then render Percent f cs
      else map_option ((#) c) (render Literal f cs))"
| "render Percent f (c # cs) =
     (if c = CHR ''('' then render (Key []) f cs
      else if c = CHR ''%'' then map_option ((#) c) (render Literal f cs)
      else None)"
| "render (Key k) f (c # cs) =
     (if c = CHR '')'' then render (Conv k) f cs else render (Key (k @ [c])) f cs)"
| "render (Conv k) f (c # cs) =
     (if c = CHR ''s''
      then (case f k of None \<Rightarrow> None | Some v \<Rightarrow> map_option ((@) v) (render Literal f cs))
      else None)"

definition record_attr :: "string \<Rightarrow> string \<Rightarrow> string \<Rightarrow> string \<Rightarrow> string \<Rightarrow> string option" where
  "record_attr asctime name levelname message key =
     (if key = ''asctime'' then Some asctime
      else if key = ''name'' then Some name
      else if key = ''levelname'' then Some levelname
      else if key = ''message'' then Some message
      else None)"

definition format_line :: "handler \<Rightarrow> string \<Rightarrow> string \<Rightarrow> string \<Rightarrow> string \<Rightarrow> string option" where
  "format_line h asctime name levelname message =
     render Literal (record_attr asctime name levelname message) (h_formatter h)"

text \<open>\<^verbatim>\<open>if logfile_name:\<close> on the value looked up, \<open>None\<close> when the key is absent.\<close>

definition file_configured :: "toml option \<Rightarrow> bool" where
  "file_configured n = (case n of None \<Rightarrow> False | Some x \<Rightarrow> truthy x)"

section \<open>Auxiliary notions for the proofs\<close>

text \<open>
  \<open>adds P m\<close>: whatever the state, \<open>m\<close> only appends events to the trace, and every
  event it appends satisfies \<open>P\<close>.
\<close>

definition adds :: "(event \<Rightarrow> bool) \<Rightarrow> 'a comp \<Rightarrow> bool" where
  "adds P m = (\<forall>s. \<exists>evs. trace (snd (m s)) = trace s @ evs \<and> list_all P evs)"


text \<open>
  Three classes of events: those of the initialization sequence, those of the whole
  \<^verbatim>\<open>try\<close> block of \<^verbatim>\<open>run\<close>, and those of the steps of \<^verbatim>\<open>shutdown\<close> after its entry.
\<close>

definition startup_event :: "event \<Rightarrow> bool" where
  "startup_event ev =
     (case ev of
        Enter n \<Rightarrow> n \<in> set [''load_configuration'', ''setup_logging'', ''setup_event_system'',
                           ''setup_module_manager'', ''setup_exception_handling'',
                           ''setup_signal_handlers'']
      | LoadAll c \<Rightarrow> False
      | DoAll p \<Rightarrow> False
      | MainLoop \<Rightarrow> False
      | _ \<Rightarrow> True)"

definition body_event :: "event \<Rightarrow> bool" where
  "body_event ev =
     (case ev of
        Enter n \<Rightarrow> n \<noteq> ''shutdown'' \<and> n \<noteq> ''run''
      | DoAll p \<Rightarrow> p = ''setup'' \<or> p = ''enable''
      | _ \<Rightarrow> True)"

definition shutdown_step_event :: "event \<Rightarrow> bool" where
  "shutdown_step_event ev =
     (case ev of
        Log lv m \<Rightarrow> True
      | DoAll p \<Rightarrow> p = ''disable'' \<or> p = ''teardown''
      | _ \<Rightarrow> False)"


text \<open>\<open>keeps f m\<close>: \<open>m\<close> leaves the component \<open>f\<close> of the state as it was.\<close>

definition keeps :: "(state \<Rightarrow> 'b) \<Rightarrow> 'a comp \<Rightarrow> bool" where
  "keeps f m = (\<forall>s. f (snd (m s)) = f s)"

text \<open>
  The calls \<^verbatim>\<open>initialize_modules\<close> makes on the module manager up to the first one that
  raises, and the exception of that call; the event with which \<^verbatim>\<open>shutdown\<close> reports the
  reason.
\<close>

definition init_calls :: "env \<Rightarrow> toml \<Rightarrow> event list" where
  "init_calls env c =
     LoadAll c #
     (case load_all env c of
        Some e \<Rightarrow> []
      | None \<Rightarrow> DoAll ''setup'' #
          (case do_all env ''setup'' of Some e \<Rightarrow> [] | None \<Rightarrow> [DoAll ''enable'']))"

definition init_error :: "env \<Rightarrow> toml \<Rightarrow> exn option" where
  "init_error env c =
     (case load_all env c of
        Some e \<Rightarrow> Some e
      | None \<Rightarrow> (case do_all env ''setup'' of Some e \<Rightarrow> Some e | None \<Rightarrow> do_all env ''enable''))"

definition final_reason_log :: "env \<Rightarrow> event" where
  "final_reason_log env =
     (if truthy_msg (abort_msg env)
      then Log WARNING [Txt ''Shutdown due to abort: '', Txt (msg_text (abort_msg env))]
      else if truthy_msg (exit_msg env)
      then Log INFO [Txt ''Shutdown requested: '', Txt (msg_text (exit_msg env))]
      else Log INFO [Txt ''Normal shutdown completed''])"

text \<open>
  Concrete worlds for the witnesses. In \<open>quiet_env\<close> \<^verbatim>\<open>config.ini\<close> is an empty file
  and every collaborator call returns normally.
\<close>

definition quiet_env :: env where
  "quiet_env =
     \<lparr>git_describe = None, toml_load = Inr [], file_handler = (\<lambda>name. None),
      events_new = None, module_manager_new = None, signal_signal = (\<lambda>signum. None),
      load_all = (\<lambda>configs. None), do_all = (\<lambda>phase. None), module_main_loop = None,
      abort_msg = None, exit_msg = None\<rparr>"

text \<open>
  Further worlds: \<^verbatim>\<open>config.ini\<close> missing; a configuration with a console level and
  one module; modules disabled; a log file configured; the same sample world with a
  module manager whose \<^verbatim>\<open>do_all("setup")\<close> raises. \<open>preset_logger\<close> is the container
  of a caller that assigned \<^verbatim>\<open>dc.logger\<close> itself before calling \<^verbatim>\<open>run\<close>; in
  \<open>ready_state\<close> the module manager exists as well.
\<close>

definition missing_config_env :: env where
  "missing_config_env = quiet_env\<lparr>toml_load := Inl (FileNotFoundError ''config.ini'')\<rparr>"

definition sample_config :: table where
  "sample_config =
     [(''doorlockd'', TTable [(''stderr_level'', TStr ''info'')]),
      (''module'', TTable [(''rfid'', TTable [(''type'', TStr ''PN532'')])])]"

definition sample_env :: env where
  "sample_env = quiet_env\<lparr>toml_load := Inr sample_config\<rparr>"

definition disabled_env :: env where
  "disabled_env =
     quiet_env\<lparr>toml_load := Inr [(''doorlockd'', TTable [(''enable_modules'', TBool False)])]\<rparr>"

definition preset_logger :: state where
  "preset_logger = (init quiet_env)\<lparr>dc_logger := Some \<lparr>lg_handlers = [], lg_level = 30\<rparr>\<rparr>"

definition ready_state :: state where
  "ready_state = preset_logger\<lparr>dc_module := Some ModuleManager\<rparr>"

definition failing_setup_env :: env where
  "failing_setup_env =
     sample_env\<lparr>do_all := (\<lambda>phase. if phase = ''setup'' then Some (OtherException ''boom'') else None)\<rparr>"

definition logfile_config :: table where
  "logfile_config = [(''doorlockd'', TTable [(''logfile_name'', TStr ''doorlockd.log'')])]"

definition logfile_env :: env where
  "logfile_env = quiet_env\<lparr>toml_load := Inr logfile_config\<rparr>"



definition loud_config :: table where
  "loud_config = [(''doorlockd'', TTable [(''stderr_level'', TStr ''loud'')])]"

definition empty_name_config :: table where
  "empty_name_config = [(''doorlockd'', TTable [(''logfile_name'', TStr [])])]"

text \<open>
  Module managers whose \<^verbatim>\<open>do_all("disable")\<close> raises: after a failed setup, and on
  its own.
\<close>

definition failing_setup_and_disable_env :: env where
  "failing_setup_and_disable_env =
     sample_env\<lparr>do_all := (\<lambda>phase.
       if phase = ''setup'' then Some (OtherException ''boom'')
       else if phase = ''disable'' then Some (OtherException ''bang'')
       else None)\<rparr>"

definition failing_disable_env :: env where
  "failing_disable_env =
     quiet_env\<lparr>do_all := (\<lambda>phase.
       if phase = ''disable'' then Some (OtherException ''bang'') else None)\<rparr>"

section \<open>How the trace grows\<close>

lemma addsI: "(\<And>s. \<exists>evs. trace (snd (m s)) = trace s @ evs \<and> list_all P evs) \<Longrightarrow> adds P m"
  by (simp add: adds_def)

lemma addsD: "adds P m \<Longrightarrow> \<exists>evs. trace (snd (m s)) = trace s @ evs \<and> list_all P evs"
  by (simp add: adds_def)

lemma adds_ret: "adds P (ret x)"
  by (simp add: adds_def ret_def)

lemma adds_raise: "adds P (raise e)"
  by (simp add: adds_def raise_def)

lemma adds_lift: "adds P (lift r)"
  by (simp add: adds_def lift_def)

lemma adds_emit: "P ev \<Longrightarrow> adds P (emit ev)"
  by (simp add: adds_def emit_def)

lemma adds_bind:
  assumes m: "adds P m" and f: "\<And>x. adds P (f x)"
  shows "adds P (bind m f)"
proof (rule addsI)
  fix s
  obtain r s1 where ms: "m s = (r, s1)" by (cases "m s")
  from addsD [OF m, of s] ms obtain evs where
    e1: "trace s1 = trace s @ evs" and p1: "list_all P evs" by auto
  show "\<exists>evs. trace (snd (bind m f s)) = trace s @ evs \<and> list_all P evs"
  proof (cases r)
    case (Inl e)
    with ms e1 p1 show ?thesis by (auto simp: bind_def)
  next
    case (Inr x)
    from addsD [OF f, of x s1] obtain evs2 where
      e2: "trace (snd (f x s1)) = trace s1 @ evs2" and p2: "list_all P evs2" by auto
    have "trace (snd (bind m f s)) = trace s @ (evs @ evs2)"
      using ms Inr e1 e2 by (simp add: bind_def)
    moreover have "list_all P (evs @ evs2)" using p1 p2 by simp
    ultimately show ?thesis by blast
  qed
qed

lemma adds_seq: "adds P m \<Longrightarrow> adds P n \<Longrightarrow> adds P (seq m n)"
  unfolding seq_def by (rule adds_bind)

lemma adds_try_catch:
  assumes b: "adds P body" and h: "\<And>e hdl. h e = Some hdl \<Longrightarrow> adds P hdl"
  shows "adds P (try_catch body h)"
proof (rule addsI)
  fix s
  obtain r s1 where bs: "body s = (r, s1)" by (cases "body s")
  from addsD [OF b, of s] bs obtain evs where
    e1: "trace s1 = trace s @ evs" and p1: "list_all P evs" by auto
  show "\<exists>evs. trace (snd (try_catch body h s)) = trace s @ evs \<and> list_all P evs"
  proof (cases r)
    case (Inr x)
    with bs e1 p1 show ?thesis by (auto simp: try_catch_def)
  next
    case (Inl e)
    show ?thesis
    proof (cases "h e")
      case None
      with Inl bs e1 p1 show ?thesis by (auto simp: try_catch_def)
    next
      case (Some hdl)
      from addsD [OF h [OF Some], of s1] obtain evs2 where
        e2: "trace (snd (hdl s1)) = trace s1 @ evs2" and p2: "list_all P evs2" by auto
      have "trace (snd (try_catch body h s)) = trace s @ (evs @ evs2)"
        using bs Inl Some e1 e2 by (simp add: try_catch_def)
      moreover have "list_all P (evs @ evs2)" using p1 p2 by simp
      ultimately show ?thesis by blast
    qed
  qed
qed

lemma adds_try_finally:
  assumes b: "adds P body" and f: "adds P fin"
  shows "adds P (try_finally body fin)"
proof (rule addsI)
  fix s
  obtain r s1 where bs: "body s = (r, s1)" by (cases "body s")
  from addsD [OF b, of s] bs obtain evs where
    e1: "trace s1 = trace s @ evs" and p1: "list_all P evs" by auto
  obtain r2 s2 where fs: "fin s1 = (r2, s2)" by (cases "fin s1")
  from addsD [OF f, of s1] fs obtain evs2 where
    e2: "trace s2 = trace s1 @ evs2" and p2: "list_all P evs2" by auto
  have "trace (snd (try_finally body fin s)) = trace s @ (evs @ evs2)"
    using bs fs e1 e2 by (cases r2) (simp_all add: try_finally_def)
  moreover have "list_all P (evs @ evs2)" using p1 p2 by simp
  ultimately show "\<exists>evs. trace (snd (try_finally body fin s)) = trace s @ evs \<and> list_all P evs"
    by blast
qed

lemma adds_log: "P (Log lv m) \<Longrightarrow> adds P (log lv m)"
  by (auto simp: adds_def log_def split: option.splits)

lemma adds_log_reader: "(\<And>s. P (Log lv (m s))) \<Longrightarrow> adds P (\<lambda>s. log lv (m s) s)"
  by (auto simp: adds_def log_def split: option.splits)

lemma adds_update: "(\<And>s. trace (u s) = trace s) \<Longrightarrow> adds P (\<lambda>s. (Inr x, u s))"
  by (simp add: adds_def)

lemma adds_doorlockd_get: "adds P (doorlockd_get key)"
  by (simp add: adds_def doorlockd_get_def)

lemma adds_add_handler: "P (AddHandler h) \<Longrightarrow> adds P (add_handler h)"
  by (simp add: adds_def add_handler_def)

lemma adds_set_overall_level: "(\<And>n. P (SetLevel n)) \<Longrightarrow> adds P set_overall_level"
  by (auto simp: adds_def set_overall_level_def split: list.splits)

lemma adds_assign_logger: "adds P assign_logger"
  by (simp add: adds_def assign_logger_def)

lemma adds_construct: "P ev \<Longrightarrow> adds P (construct r ev)"
  by (cases r) (simp_all add: construct_def adds_raise adds_emit)

lemma adds_module_call: "P ev \<Longrightarrow> adds P (module_call name ev r)"
  by (auto simp: adds_def module_call_def split: option.splits)

lemma adds_module_attr: "adds P (module_attr name v)"
  by (auto simp: adds_def module_attr_def split: option.splits)

lemma adds_new_file_handler: "(\<And>n. P (OpenLogFile n)) \<Longrightarrow> adds P (new_file_handler env v)"
  by (cases v) (auto simp: adds_raise adds_seq adds_emit adds_ret split: option.splits)

lemma adds_toml_load_config: "adds P (toml_load_config env)"
  by (auto simp: adds_def toml_load_config_def split: sum.splits)

lemma adds_mono: "adds P m \<Longrightarrow> (\<And>ev. P ev \<Longrightarrow> Q ev) \<Longrightarrow> adds Q m"
  unfolding adds_def list_all_iff by metis

lemma adds_load_configuration: "adds startup_event (load_configuration env)"
  unfolding load_configuration_def
  by (intro adds_seq adds_try_catch adds_emit adds_log adds_toml_load_config)
     (auto simp: startup_event_def adds_raise split: exn.splits)

lemma adds_file_logging: "adds startup_event (file_logging env n)"
  unfolding file_logging_def
  by (intro adds_bind adds_seq adds_new_file_handler adds_doorlockd_get adds_lift
        adds_add_handler adds_log)
     (simp_all add: startup_event_def)

lemma adds_console_logging: "adds startup_event console_logging"
  unfolding console_logging_def
  by (intro adds_bind adds_doorlockd_get adds_lift adds_add_handler)
     (simp add: startup_event_def)

lemma adds_file_logging_if_configured: "adds startup_event (file_logging_if_configured env)"
  unfolding file_logging_if_configured_def
  by (intro adds_bind adds_doorlockd_get)
     (auto simp: adds_ret adds_file_logging split: option.splits)

lemma adds_warn_deprecated: "adds startup_event warn_deprecated"
  unfolding warn_deprecated_def
  by (intro adds_bind adds_doorlockd_get)
     (auto simp: adds_ret adds_emit startup_event_def split: option.splits)

lemma adds_setup_logging: "adds startup_event (setup_logging env)"
  unfolding setup_logging_def
  by (intro adds_seq adds_emit adds_console_logging adds_file_logging_if_configured
        adds_set_overall_level adds_assign_logger adds_warn_deprecated)
     (simp_all add: startup_event_def)

lemma adds_setup_event_system: "adds startup_event (setup_event_system env)"
  unfolding setup_event_system_def
  by (intro adds_seq adds_emit adds_construct adds_log adds_update)
     (simp_all add: startup_event_def)

lemma adds_setup_module_manager: "adds startup_event (setup_module_manager env)"
  unfolding setup_module_manager_def
  by (intro adds_seq adds_emit adds_construct adds_log adds_update)
     (simp_all add: startup_event_def)

lemma adds_setup_exception_handling: "adds startup_event setup_exception_handling"
  unfolding setup_exception_handling_def
  by (intro adds_seq adds_emit adds_log) (simp_all add: startup_event_def)

lemma adds_setup_signal_handlers: "adds startup_event (setup_signal_handlers env)"
  unfolding setup_signal_handlers_def
  by (intro adds_seq adds_emit adds_construct adds_log) (simp_all add: startup_event_def)

lemma adds_initialization_sequence: "adds startup_event (initialization_sequence env)"
  unfolding initialization_sequence_def
  by (intro adds_seq adds_load_configuration adds_setup_logging adds_log_reader
        adds_setup_event_system adds_setup_module_manager adds_setup_exception_handling
        adds_setup_signal_handlers)
     (simp add: startup_event_def)

lemma startup_body_event: "startup_event ev \<Longrightarrow> body_event ev"
  by (auto simp: startup_event_def body_event_def split: event.splits)

lemma adds_config_get_module: "adds P config_get_module"
  by (simp add: adds_def config_get_module_def)

lemma adds_initialize_modules: "adds body_event (initialize_modules env)"
  unfolding initialize_modules_def module_do_all_def
  by (intro adds_seq adds_try_catch adds_bind adds_emit adds_module_call adds_log adds_ret
        adds_config_get_module)
     (auto simp: body_event_def adds_seq adds_log adds_ret split: if_splits)

lemma adds_main_loop: "adds body_event (main_loop env)"
  unfolding main_loop_def
  by (intro adds_seq adds_try_catch adds_emit adds_module_call adds_log_reader)
     (auto simp: body_event_def adds_log split: if_splits)

lemma adds_initialize_and_run: "adds body_event (initialize_and_run env)"
  unfolding initialize_and_run_def
  by (intro adds_bind adds_doorlockd_get)
     (auto simp: body_event_def adds_log adds_ret adds_main_loop
           intro!: adds_bind adds_initialize_modules)

lemma adds_fatal_startup_error: "fatal_startup_error e = Some hdl \<Longrightarrow> adds body_event hdl"
  by (auto simp: fatal_startup_error_def body_event_def split: if_splits
           intro!: adds_seq adds_log adds_raise)

lemma adds_try_body:
  "adds body_event
     (try_catch (seq (initialization_sequence env) (initialize_and_run env)) fatal_startup_error)"
  by (intro adds_try_catch adds_seq adds_initialize_and_run
        adds_mono [OF adds_initialization_sequence startup_body_event])
     (auto intro: adds_fatal_startup_error)

lemma adds_log_shutdown_reason: "adds shutdown_step_event (log_shutdown_reason env)"
  unfolding log_shutdown_reason_def
  by (intro adds_bind adds_module_attr)
     (auto simp: shutdown_step_event_def adds_log intro!: adds_bind adds_module_attr)

lemma shutdown_trace:
  "\<exists>evs. trace (snd (shutdown env s)) = trace s @ Enter ''shutdown'' # evs
         \<and> list_all shutdown_step_event evs"
proof -
  let ?rest = "seq (log INFO [Txt ''Initiating shutdown sequence...''])
    (seq (module_do_all env ''disable'')
    (seq (module_do_all env ''teardown'')
         (log_shutdown_reason env)))"
  have "adds shutdown_step_event ?rest"
    unfolding module_do_all_def
    by (intro adds_seq adds_log adds_module_call adds_log_shutdown_reason)
       (simp_all add: shutdown_step_event_def)
  from addsD [OF this, of "s\<lparr>trace := trace s @ [Enter ''shutdown'']\<rparr>"]
  show ?thesis
    by (simp add: shutdown_def seq_def bind_def emit_def)
qed

lemma run_trace:
  "\<exists>evs1 evs2.
     trace (snd (run env s)) = trace s @ Enter ''run'' # evs1 @ Enter ''shutdown'' # evs2
     \<and> list_all body_event evs1 \<and> list_all shutdown_step_event evs2"
proof -
  let ?s0 = "s\<lparr>trace := trace s @ [Enter ''run'']\<rparr>"
  let ?body = "try_catch (seq (initialization_sequence env) (initialize_and_run env))
                 fatal_startup_error"
  obtain r1 s1 where b: "?body ?s0 = (r1, s1)" by (cases "?body ?s0")
  from addsD [OF adds_try_body, of env ?s0] b obtain evs1 where
    e1: "trace s1 = trace ?s0 @ evs1" and p1: "list_all body_event evs1" by auto
  from shutdown_trace [of env s1] obtain evs2 where
    e2: "trace (snd (shutdown env s1)) = trace s1 @ Enter ''shutdown'' # evs2"
    and p2: "list_all shutdown_step_event evs2" by blast
  have "snd (run env s) = snd (shutdown env s1)"
    using b by (simp add: run_def seq_def bind_def emit_def try_finally_def
                     split: prod.splits sum.splits)
  with e1 e2 have "trace (snd (run env s)) = trace s @ Enter ''run'' # evs1 @ Enter ''shutdown'' # evs2"
    by simp
  with p1 p2 show ?thesis by blast
qed

lemma count_zero: "list_all P evs \<Longrightarrow> \<not> P x \<Longrightarrow> count_list evs x = 0"
  by (induction evs) auto

section \<open>What the methods compute\<close>

lemmas comb_defs = seq_def bind_def ret_def raise_def emit_def lift_def try_catch_def
  try_finally_def

lemma run_config_error:
  assumes "toml_load env = Inl (FileNotFoundError d) \<or> toml_load env = Inl (TomlDecodeError d)"
    and "dc_module s = None"
  shows "run env s =
     (Inl (AttributeError (case dc_logger s of None \<Rightarrow> ''info'' | Some l \<Rightarrow> ''do_all'')),
      s\<lparr>trace := trace s @ Enter ''run'' # Enter ''load_configuration'' # Enter ''shutdown'' #
          (case dc_logger s of
             None \<Rightarrow> []
           | Some l \<Rightarrow> [Log INFO [Txt ''Initiating shutdown sequence...'']])\<rparr>)"
  using assms
  by (auto simp: run_def comb_defs initialization_sequence_def load_configuration_def
        toml_load_config_def fatal_startup_error_def shutdown_def log_def module_do_all_def
        module_call_def split: option.splits)

lemma load_configuration_no_logger:
  assumes "dc_logger s = None"
  shows "\<exists>e s'. load_configuration env s = (Inl e, s') \<and> dc_logger s' = None
           \<and> dc_module s' = dc_module s"
  using assms
  by (auto simp: comb_defs load_configuration_def toml_load_config_def log_def
           split: sum.splits exn.splits)

lemma main_always_fails:
  "fst (main env) = Inl (AttributeError ''info'') \<and> dc_logger (snd (main env)) = None"
proof -
  let ?s0 = "(init env)\<lparr>trace := trace (init env) @ [Enter ''run'']\<rparr>"
  have l0: "dc_logger ?s0 = None"
    by (simp add: init_def setup_data_container_def)
  from load_configuration_no_logger [OF l0, of env] obtain e s1 where
    lc: "load_configuration env ?s0 = (Inl e, s1)" and l1: "dc_logger s1 = None" by blast
  let ?body = "try_catch (seq (initialization_sequence env) (initialize_and_run env))
                 fatal_startup_error"
  have "\<exists>e' s2. ?body ?s0 = (Inl e', s2) \<and> dc_logger s2 = None"
    using lc l1
    by (auto simp: comb_defs initialization_sequence_def fatal_startup_error_def log_def)
  then obtain e' s2 where b: "?body ?s0 = (Inl e', s2)" and l2: "dc_logger s2 = None" by blast
  have sh: "shutdown env s2 = (Inl (AttributeError ''info''), s2\<lparr>trace := trace s2 @ [Enter ''shutdown'']\<rparr>)"
    using l2 by (simp add: shutdown_def comb_defs log_def)
  have "run env (init env) = (Inl (AttributeError ''info''), s2\<lparr>trace := trace s2 @ [Enter ''shutdown'']\<rparr>)"
    using b sh by (simp add: run_def comb_defs)
  then show ?thesis using l2 by (simp add: main_def)
qed

lemma main_valid_config:
  "toml_load env = Inr cfg \<Longrightarrow>
   main env = (Inl (AttributeError ''info''),
     (init env)\<lparr>dc_config := cfg,
       trace := [Enter ''run'', Enter ''load_configuration'', Enter ''shutdown'']\<rparr>)"
  by (simp add: main_def run_def comb_defs initialization_sequence_def load_configuration_def
        toml_load_config_def fatal_startup_error_def shutdown_def log_def init_def
        setup_data_container_def setup_application_info_def fresh_process_def)

lemma keepsD: "keeps f m \<Longrightarrow> m s = (r, s') \<Longrightarrow> f s' = f s"
  by (auto simp: keeps_def dest: spec [of _ s])

lemma keeps_ret: "keeps f (ret x)" by (simp add: keeps_def ret_def)

lemma keeps_raise: "keeps f (raise e)" by (simp add: keeps_def raise_def)

lemma keeps_lift: "keeps f (lift r)" by (simp add: keeps_def lift_def)

lemma keeps_bind:
  assumes "keeps f m" and "\<And>x. keeps f (g x)"
  shows "keeps f (bind m g)"
  unfolding keeps_def
proof
  fix s
  obtain r s1 where ms: "m s = (r, s1)" by (cases "m s")
  have 1: "f s1 = f s" using keepsD [OF assms(1) ms] .
  show "f (snd (bind m g s)) = f s"
  proof (cases r)
    case (Inl e)
    with ms 1 show ?thesis by (simp add: bind_def)
  next
    case (Inr x)
    have "f (snd (g x s1)) = f s1" using assms(2) [of x] by (simp add: keeps_def)
    with ms Inr 1 show ?thesis by (simp add: bind_def)
  qed
qed

lemma keeps_seq: "keeps f m \<Longrightarrow> keeps f n \<Longrightarrow> keeps f (seq m n)"
  unfolding seq_def by (rule keeps_bind)

lemma keeps_try_catch:
  assumes "keeps f body" and "\<And>e hdl. h e = Some hdl \<Longrightarrow> keeps f hdl"
  shows "keeps f (try_catch body h)"
  unfolding keeps_def
proof
  fix s
  obtain r s1 where bs: "body s = (r, s1)" by (cases "body s")
  have 1: "f s1 = f s" using keepsD [OF assms(1) bs] .
  show "f (snd (try_catch body h s)) = f s"
  proof (cases r)
    case (Inr x)
    with bs 1 show ?thesis by (simp add: try_catch_def)
  next
    case (Inl e)
    show ?thesis
    proof (cases "h e")
      case None
      with Inl bs 1 show ?thesis by (simp add: try_catch_def)
    next
      case (Some hdl)
      have "f (snd (hdl s1)) = f s1" using assms(2) [OF Some] by (simp add: keeps_def)
      with Inl Some bs 1 show ?thesis by (simp add: try_catch_def)
    qed
  qed
qed

lemma trace_update_keeps:
  "(\<And>s t. f (s\<lparr>trace := t\<rparr>) = f s) \<Longrightarrow> keeps f (emit ev)"
  "(\<And>s t. f (s\<lparr>trace := t\<rparr>) = f s) \<Longrightarrow> keeps f (log lv m)"
  "(\<And>s t. f (s\<lparr>trace := t\<rparr>) = f s) \<Longrightarrow> keeps f (\<lambda>s. log lv (msg s) s)"
  "(\<And>s t. f (s\<lparr>trace := t\<rparr>) = f s) \<Longrightarrow> keeps f (module_call name ev r)"
  "(\<And>s t. f (s\<lparr>trace := t\<rparr>) = f s) \<Longrightarrow> keeps f (construct r ev)"
  by (auto simp: keeps_def emit_def log_def module_call_def construct_def raise_def
           split: option.splits)

lemma keeps_plain:
  "keeps f (doorlockd_get key)" "keeps f (module_attr name v)" "keeps f config_get_module"
  by (auto simp: keeps_def doorlockd_get_def module_attr_def config_get_module_def
           split: option.splits)

lemma keeps_new_file_handler:
  "(\<And>s t. f (s\<lparr>trace := t\<rparr>) = f s) \<Longrightarrow> keeps f (new_file_handler env v)"
  by (cases v) (auto simp: keeps_raise keeps_ret trace_update_keeps intro!: keeps_seq
                     split: option.splits)

lemma keeps_logger_steps:
  "keeps dc_logger (add_handler h)" "keeps dc_logger set_overall_level"
  "keeps dc_logger (toml_load_config env)"
  "keeps dc_module (add_handler h)" "keeps dc_module set_overall_level"
  "keeps dc_module (toml_load_config env)" "keeps dc_module assign_logger"
  "keeps dc_config (add_handler h)" "keeps dc_config set_overall_level"
  "keeps dc_config assign_logger"
  by (auto simp: keeps_def add_handler_def set_overall_level_def toml_load_config_def
        assign_logger_def split: list.splits sum.splits)

lemma keeps_file_logging:
  "keeps dc_logger (file_logging env n)" "keeps dc_module (file_logging env n)"
  "keeps dc_config (file_logging env n)"
  unfolding file_logging_def
  by (intro keeps_bind keeps_seq keeps_new_file_handler keeps_plain keeps_lift
        keeps_logger_steps trace_update_keeps; simp)+

lemma keeps_load_configuration:
  "keeps dc_logger (load_configuration env)" "keeps dc_module (load_configuration env)"
  unfolding load_configuration_def
  by (intro keeps_seq keeps_try_catch trace_update_keeps keeps_logger_steps;
      auto simp: keeps_raise split: exn.splits)+

lemma keeps_console_logging:
  "keeps dc_logger console_logging" "keeps dc_module console_logging"
  "keeps dc_config console_logging"
  unfolding console_logging_def
  by (intro keeps_bind keeps_plain keeps_lift keeps_logger_steps)+

lemma keeps_file_logging_if_configured:
  "keeps dc_logger (file_logging_if_configured env)"
  "keeps dc_module (file_logging_if_configured env)"
  "keeps dc_config (file_logging_if_configured env)"
  unfolding file_logging_if_configured_def
  by (intro keeps_bind keeps_plain; auto simp: keeps_ret keeps_file_logging split: option.splits)+

lemma keeps_warn_deprecated:
  "keeps dc_logger warn_deprecated" "keeps dc_module warn_deprecated"
  "keeps dc_config warn_deprecated" "keeps root_logger warn_deprecated"
  unfolding warn_deprecated_def
  by (intro keeps_bind keeps_plain;
      auto simp: keeps_ret trace_update_keeps split: option.splits)+

lemma keeps_setup_logging:
  "keeps dc_module (setup_logging env)" "keeps dc_config (setup_logging env)"
  unfolding setup_logging_def
  by (intro keeps_seq keeps_console_logging keeps_file_logging_if_configured
        keeps_logger_steps keeps_warn_deprecated trace_update_keeps; simp)+

lemma keeps_setup_event_system:
  "keeps dc_logger (setup_event_system env)" "keeps dc_module (setup_event_system env)"
  "keeps dc_config (setup_event_system env)"
  unfolding setup_event_system_def
  by (intro keeps_seq trace_update_keeps; simp add: keeps_def)+

lemma keeps_setup_module_manager:
  "keeps dc_logger (setup_module_manager env)" "keeps dc_config (setup_module_manager env)"
  unfolding setup_module_manager_def
  by (intro keeps_seq trace_update_keeps; simp add: keeps_def)+

lemma keeps_setup_exception_handling:
  "keeps dc_logger setup_exception_handling" "keeps dc_module setup_exception_handling"
  "keeps dc_config setup_exception_handling"
  unfolding setup_exception_handling_def
  by (intro keeps_seq trace_update_keeps; simp)+

lemma keeps_setup_signal_handlers:
  "keeps dc_logger (setup_signal_handlers env)" "keeps dc_module (setup_signal_handlers env)"
  "keeps dc_config (setup_signal_handlers env)"
  unfolding setup_signal_handlers_def
  by (intro keeps_seq trace_update_keeps; simp)+

lemma seq_Inr:
  "seq m n s = (Inr x, s2) \<Longrightarrow> \<exists>s1. m s = (Inr (), s1) \<and> n s1 = (Inr x, s2)"
  by (auto simp: seq_def bind_def split: prod.splits sum.splits)

lemma bind_Inr:
  "bind m g s = (Inr x, s2) \<Longrightarrow> \<exists>y s1. m s = (Inr y, s1) \<and> g y s1 = (Inr x, s2)"
  by (auto simp: bind_def split: prod.splits sum.splits)

lemma setup_logging_Inr:
  assumes "setup_logging env s = (Inr (), s1)"
  shows "dc_logger s1 = Some (root_logger s1)"
proof -
  from assms obtain sa sb where
    a: "assign_logger sa = (Inr (), sb)" and w: "warn_deprecated sb = (Inr (), s1)"
    unfolding setup_logging_def by (auto dest!: seq_Inr)
  from a have "dc_logger sb = Some (root_logger sb)" by (auto simp: assign_logger_def)
  moreover have "dc_logger s1 = dc_logger sb" using keepsD [OF keeps_warn_deprecated(1) w] .
  moreover have "root_logger s1 = root_logger sb" using keepsD [OF keeps_warn_deprecated(4) w] .
  ultimately show ?thesis by simp
qed

lemma setup_module_manager_Inr:
  "setup_module_manager env s = (Inr (), s1) \<Longrightarrow> dc_module s1 = Some ModuleManager"
  unfolding setup_module_manager_def
  by (auto dest!: seq_Inr simp: log_def split: option.splits)

lemma initialization_sequence_Inr:
  assumes "initialization_sequence env s = (Inr (), s1)"
  shows "dc_logger s1 \<noteq> None" and "dc_module s1 = Some ModuleManager"
proof -
  from assms obtain a b c d e f where
    1: "load_configuration env s = (Inr (), a)" and
    2: "setup_logging env a = (Inr (), b)" and
    3: "log INFO [Txt (glyph_wrench @ '' ''), Txt (dc_app_name_ver b), Txt '' starting up...''] b = (Inr (), c)" and
    4: "setup_event_system env c = (Inr (), d)" and
    5: "setup_module_manager env d = (Inr (), e)" and
    6: "setup_exception_handling e = (Inr (), f)" and
    7: "setup_signal_handlers env f = (Inr (), s1)"
    unfolding initialization_sequence_def by (auto dest!: seq_Inr)
  have "dc_logger b \<noteq> None" using setup_logging_Inr [OF 2] by simp
  moreover have "dc_logger c = dc_logger b" using 3 by (auto simp: log_def split: option.splits)
  moreover have "dc_logger d = dc_logger c" using keepsD [OF keeps_setup_event_system(1) 4] .
  moreover have "dc_logger e = dc_logger d" using keepsD [OF keeps_setup_module_manager(1) 5] .
  moreover have "dc_logger f = dc_logger e" using keepsD [OF keeps_setup_exception_handling(1) 6] .
  moreover have "dc_logger s1 = dc_logger f" using keepsD [OF keeps_setup_signal_handlers(1) 7] .
  ultimately show "dc_logger s1 \<noteq> None" by simp
  have "dc_module e = Some ModuleManager" using setup_module_manager_Inr [OF 5] .
  moreover have "dc_module f = dc_module e" using keepsD [OF keeps_setup_exception_handling(2) 6] .
  moreover have "dc_module s1 = dc_module f" using keepsD [OF keeps_setup_signal_handlers(2) 7] .
  ultimately show "dc_module s1 = Some ModuleManager" by simp
qed

lemma shutdown_exact:
  assumes "dc_logger s = Some l" and "dc_module s = Some m"
  shows "shutdown env s =
     (case do_all env ''disable'' of
        Some e \<Rightarrow>
          (Inl e, s\<lparr>trace := trace s @ [Enter ''shutdown'',
             Log INFO [Txt ''Initiating shutdown sequence...''], DoAll ''disable'']\<rparr>)
      | None \<Rightarrow>
          (case do_all env ''teardown'' of
             Some e \<Rightarrow>
               (Inl e, s\<lparr>trace := trace s @ [Enter ''shutdown'',
                  Log INFO [Txt ''Initiating shutdown sequence...''], DoAll ''disable'',
                  DoAll ''teardown'']\<rparr>)
           | None \<Rightarrow>
               (Inr (), s\<lparr>trace := trace s @ [Enter ''shutdown'',
                  Log INFO [Txt ''Initiating shutdown sequence...''], DoAll ''disable'',
                  DoAll ''teardown'', final_reason_log env]\<rparr>)))"
  using assms
  by (simp add: shutdown_def comb_defs log_def module_do_all_def module_call_def
        log_shutdown_reason_def module_attr_def final_reason_log_def split: option.splits)

lemma initialize_modules_error:
  assumes "dc_logger s = Some l" and "dc_module s = Some m"
    and "init_error env (get_default (map_of (dc_config s) ''module'') (TTable [])) = Some e"
    and "is_Exception e"
  shows "initialize_modules env s =
     (Inr False, s\<lparr>trace := trace s @ Enter ''initialize_modules'' #
        init_calls env (get_default (map_of (dc_config s) ''module'') (TTable [])) @
        [Log ERROR [Txt ''Failed to initialize modules: '', Err e]]\<rparr>)"
proof -
  let ?c = "get_default (map_of (dc_config s) ''module'') (TTable [])"
  show ?thesis
  proof (cases "load_all env ?c")
    case (Some x)
    with assms show ?thesis
      by (simp add: initialize_modules_def comb_defs log_def module_do_all_def module_call_def
            config_get_module_def init_error_def init_calls_def)
  next
    case None
    note la = this
    show ?thesis
    proof (cases "do_all env ''setup''")
      case (Some x)
      with la assms show ?thesis
        by (simp add: initialize_modules_def comb_defs log_def module_do_all_def
              module_call_def config_get_module_def init_error_def init_calls_def)
    next
      case None
      with la assms show ?thesis
        by (simp add: initialize_modules_def comb_defs log_def module_do_all_def
              module_call_def config_get_module_def init_error_def init_calls_def)
    qed
  qed
qed


lemma run_after_initialization:
  assumes "initialization_sequence env (s\<lparr>trace := trace s @ [Enter ''run'']\<rparr>) = (Inr (), s1)"
  shows "run env s =
     try_finally (try_catch (initialize_and_run env) fatal_startup_error) (shutdown env) s1"
  using assms by (simp add: run_def comb_defs)

lemmas world_defs = quiet_env_def missing_config_env_def sample_config_def sample_env_def
  disabled_env_def preset_logger_def ready_state_def failing_setup_env_def init_def
  setup_data_container_def setup_application_info_def fresh_process_def get_git_version_def

lemma seq_Inl:
  "seq m n s = (Inl e, s2) \<Longrightarrow>
     m s = (Inl e, s2) \<or> (\<exists>s1. m s = (Inr (), s1) \<and> n s1 = (Inl e, s2))"
  by (auto simp: seq_def bind_def split: prod.splits sum.splits)

lemma lookup_Inl_any:
  "doorlockd_lookup cfg k = Inl e \<Longrightarrow> doorlockd_lookup cfg k' = Inl e"
  by (auto simp: doorlockd_lookup_def split: option.splits toml.splits)

lemma warn_deprecated_Inl:
  "warn_deprecated s = (Inl e, s') \<Longrightarrow> doorlockd_lookup (dc_config s) ''log_level'' = Inl e"
  by (auto simp: warn_deprecated_def bind_def doorlockd_get_def ret_def emit_def
           split: sum.splits option.splits if_splits)

lemma console_logging_Inr:
  "console_logging s = (Inr (), s') \<Longrightarrow>
     \<exists>v. doorlockd_lookup (dc_config s) ''stderr_level'' = Inr v"
  by (auto simp: console_logging_def bind_def doorlockd_get_def split: sum.splits)

lemma setup_logging_Inl:
  assumes "setup_logging env s = (Inl e, s')"
  shows "dc_logger s' = dc_logger s"
proof -
  let ?s0 = "s\<lparr>trace := trace s @ [Enter ''setup_logging'']\<rparr>"
  let ?rest1 = "seq (file_logging_if_configured env) (seq set_overall_level (seq assign_logger warn_deprecated))"
  from assms have r: "seq console_logging ?rest1 ?s0 = (Inl e, s')"
    by (simp add: setup_logging_def seq_def bind_def emit_def)
  from seq_Inl [OF r] show ?thesis
  proof
    assume "console_logging ?s0 = (Inl e, s')"
    from keepsD [OF keeps_console_logging(1) this] show ?thesis by simp
  next
    assume "\<exists>s1. console_logging ?s0 = (Inr (), s1) \<and> ?rest1 s1 = (Inl e, s')"
    then obtain s1 where c: "console_logging ?s0 = (Inr (), s1)" and r1: "?rest1 s1 = (Inl e, s')"
      by blast
    have l1: "dc_logger s1 = dc_logger s" using keepsD [OF keeps_console_logging(1) c] by simp
    have c1: "dc_config s1 = dc_config s" using keepsD [OF keeps_console_logging(3) c] by simp
    from console_logging_Inr [OF c] obtain v where
      v: "doorlockd_lookup (dc_config s) ''stderr_level'' = Inr v" by auto
    from seq_Inl [OF r1] show ?thesis
    proof
      assume "file_logging_if_configured env s1 = (Inl e, s')"
      from keepsD [OF keeps_file_logging_if_configured(1) this] l1 show ?thesis by simp
    next
      assume "\<exists>s2. file_logging_if_configured env s1 = (Inr (), s2)
                \<and> seq set_overall_level (seq assign_logger warn_deprecated) s2 = (Inl e, s')"
      then obtain s2 where f: "file_logging_if_configured env s1 = (Inr (), s2)"
        and r2: "seq set_overall_level (seq assign_logger warn_deprecated) s2 = (Inl e, s')"
        by blast
      have l2: "dc_logger s2 = dc_logger s"
        using keepsD [OF keeps_file_logging_if_configured(1) f] l1 by simp
      have c2: "dc_config s2 = dc_config s"
        using keepsD [OF keeps_file_logging_if_configured(3) f] c1 by simp
      from seq_Inl [OF r2] show ?thesis
      proof
        assume "set_overall_level s2 = (Inl e, s')"
        from keepsD [OF keeps_logger_steps(2) this] l2 show ?thesis by simp
      next
        assume "\<exists>s3. set_overall_level s2 = (Inr (), s3)
                  \<and> seq assign_logger warn_deprecated s3 = (Inl e, s')"
        then obtain s3 where o: "set_overall_level s2 = (Inr (), s3)"
          and r3: "seq assign_logger warn_deprecated s3 = (Inl e, s')" by blast
        have c3: "dc_config s3 = dc_config s"
          using keepsD [OF keeps_logger_steps(9) o] c2 by simp
        from r3 have "warn_deprecated (s3\<lparr>dc_logger := Some (root_logger s3)\<rparr>) = (Inl e, s')"
          by (simp add: seq_def bind_def assign_logger_def)
        from warn_deprecated_Inl [OF this] c3
        have "doorlockd_lookup (dc_config s) ''log_level'' = Inl e" by simp
        from lookup_Inl_any [OF this, of "''stderr_level''"] v show ?thesis by simp
      qed
    qed
  qed
qed

lemma file_logging_no_logger:
  assumes "dc_logger s = None"
  shows "fst (file_logging env n s) \<noteq> Inr ()"
proof -
  have k: "\<And>r s'. new_file_handler env n s = (r, s') \<Longrightarrow> dc_logger s' = None"
    using keepsD [OF keeps_new_file_handler [of dc_logger env n]] assms by simp
  show ?thesis
    using k
    by (auto simp: file_logging_def bind_def seq_def lift_def doorlockd_get_def
          add_handler_def log_def split: prod.splits sum.splits)
qed

lemma file_logging_reached:
  assumes "dc_logger s = None" and "file_handler env name = None"
    and "doorlockd_lookup (dc_config s) ''logfile_level'' = Inr v"
    and "level_of (get_default v (TStr ''INFO'')) = Inr lv"
  shows "file_logging env (TStr name) s =
     (Inl (AttributeError ''info''),
      s\<lparr>root_logger := (root_logger s)\<lparr>lg_handlers := lg_handlers (root_logger s) @
            [\<lparr>h_stream = File name, h_level = lv, h_formatter = formatter\<rparr>]\<rparr>,
        trace := trace s @ [OpenLogFile name,
            AddHandler \<lparr>h_stream = File name, h_level = lv, h_formatter = formatter\<rparr>]\<rparr>)"
  using assms
  by (simp add: file_logging_def comb_defs doorlockd_get_def add_handler_def log_def)

lemmas method_defs = initialization_sequence_def load_configuration_def setup_logging_def
  console_logging_def file_logging_if_configured_def file_logging_def warn_deprecated_def
  setup_event_system_def setup_module_manager_def setup_exception_handling_def
  setup_signal_handlers_def set_overall_level_def assign_logger_def add_handler_def
  construct_def toml_load_config_def doorlockd_get_def doorlockd_lookup_def
  get_default_def upper_def upper_char_def logging_level_def log_def
  SIGINT_def SIGTERM_def initialize_and_run_def initialize_modules_def main_loop_def
  shutdown_def log_shutdown_reason_def module_do_all_def module_call_def module_attr_def
  config_get_module_def fatal_startup_error_def run_def main_def truthy_msg_def msg_text_def

lemma format_line_formatter:
  "h_formatter h = formatter \<Longrightarrow>
   format_line h asctime name levelname message =
     Some (asctime @ '' - '' @ name @ '' - '' @ levelname @ '' - '' @ message)"
  by (simp add: format_line_def formatter_def record_attr_def)

lemma console_logging_Inr_handlers:
  assumes "console_logging s = (Inr (), s')"
  shows "\<exists>v lv. doorlockd_lookup (dc_config s) ''stderr_level'' = Inr v
           \<and> level_of (get_default v (TStr ''INFO'')) = Inr lv
           \<and> lg_handlers (root_logger s') =
               lg_handlers (root_logger s) @
                 [\<lparr>h_stream = Console, h_level = lv, h_formatter = formatter\<rparr>]"
  using assms
  by (auto simp: console_logging_def bind_def doorlockd_get_def lift_def add_handler_def
           split: sum.splits)

lemma file_logging_Inr:
  assumes "file_logging env n s = (Inr (), s')"
  shows "\<exists>name w lvf. n = TStr name
           \<and> doorlockd_lookup (dc_config s) ''logfile_level'' = Inr w
           \<and> level_of (get_default w (TStr ''INFO'')) = Inr lvf
           \<and> lg_handlers (root_logger s') =
               lg_handlers (root_logger s) @
                 [\<lparr>h_stream = File name, h_level = lvf, h_formatter = formatter\<rparr>]"
proof (cases n)
  case (TStr name)
  with assms show ?thesis
    by (auto simp: file_logging_def comb_defs doorlockd_get_def add_handler_def log_def
             split: option.splits sum.splits)
qed (use assms in \<open>simp_all add: file_logging_def bind_def raise_def\<close>)

lemma file_logging_if_configured_Inr:
  assumes "file_logging_if_configured env s = (Inr (), s')"
  shows "\<exists>n. doorlockd_lookup (dc_config s) ''logfile_name'' = Inr n
         \<and> (if file_configured n
             then \<exists>name w lvf. n = Some (TStr name)
                 \<and> doorlockd_lookup (dc_config s) ''logfile_level'' = Inr w
                 \<and> level_of (get_default w (TStr ''INFO'')) = Inr lvf
                 \<and> lg_handlers (root_logger s') =
                     lg_handlers (root_logger s) @
                       [\<lparr>h_stream = File name, h_level = lvf, h_formatter = formatter\<rparr>]
             else lg_handlers (root_logger s') = lg_handlers (root_logger s))"
proof -
  from assms obtain n where
    n: "doorlockd_lookup (dc_config s) ''logfile_name'' = Inr n"
    and r: "(case n of None \<Rightarrow> ret () | Some x \<Rightarrow> if truthy x then file_logging env x else ret ()) s
              = (Inr (), s')"
    by (auto simp: file_logging_if_configured_def bind_def doorlockd_get_def split: sum.splits)
  show ?thesis
  proof (cases "file_configured n")
    case False
    with r have "s' = s"
      by (auto simp: file_configured_def ret_def split: option.splits)
    with n False show ?thesis by auto
  next
    case True
    then obtain x where x: "n = Some x" "truthy x"
      by (auto simp: file_configured_def split: option.splits)
    with r have "file_logging env x s = (Inr (), s')" by simp
    from file_logging_Inr [OF this] x n True show ?thesis by auto
  qed
qed

lemma keeps_handlers:
  "keeps (\<lambda>s. lg_handlers (root_logger s)) set_overall_level"
  "keeps (\<lambda>s. lg_handlers (root_logger s)) assign_logger"
  "keeps (\<lambda>s. lg_handlers (root_logger s)) warn_deprecated"
  by (auto simp: keeps_def set_overall_level_def assign_logger_def warn_deprecated_def
        bind_def doorlockd_get_def ret_def emit_def split: list.splits sum.splits option.splits)

lemma deliver_request: "deliver c = request (requested c)"
  by (cases c) (simp_all add: signal_handler_def global_exception_handler_def)

lemma requested_set: "requested c \<noteq> NoReason"
  by (cases c) simp_all

lemma deliver_after_first:
  "reason m \<noteq> NoReason \<Longrightarrow>
     reason (fold deliver cs m) = reason m
     \<and> superseded (fold deliver cs m) = superseded m @ map requested cs"
proof (induction cs arbitrary: m)
  case Nil
  then show ?case by simp
next
  case (Cons c cs)
  have "reason (deliver c m) = reason m" "superseded (deliver c m) = superseded m @ [requested c]"
    using Cons.prems by (simp_all add: deliver_request request_def)
  with Cons.IH [of "deliver c m"] Cons.prems show ?case by simp
qed

lemma not_both: "\<not> (abort_set r \<and> exit_set r)"
  by (cases r) simp_all

text \<open>
  For comparison, the same worlds from a container whose logger a caller has assigned
  before calling \<^verbatim>\<open>run\<close>: the startup steps in their order, a module initialization,
  the operational loop and a complete shutdown; and, with modules disabled, the warning
  followed by the shutdown sequence.
\<close>

lemma startup_order_with_logger:
  "fst (run sample_env preset_logger) = Inr ()
   \<and> trace (snd (run sample_env preset_logger)) =
      [Enter ''run'', Enter ''load_configuration'',
       Log INFO [Txt ''Configuration loaded successfully''],
       Enter ''setup_logging'',
       AddHandler \<lparr>h_stream = Console, h_level = 20, h_formatter = formatter\<rparr>,
       SetLevel 20,
       Log INFO [Txt (glyph_wrench @ '' ''), Txt ''doorlockd-client(version-unknown)'',
                 Txt '' starting up...''],
       Enter ''setup_event_system'', NewEvents, Log DEBUG [Txt ''Event system initialized''],
       Enter ''setup_module_manager'', NewModuleManager,
       Log DEBUG [Txt ''Module manager initialized''],
       Enter ''setup_exception_handling'', SetExcepthook,
       Log DEBUG [Txt ''Global exception handler configured''],
       Enter ''setup_signal_handlers'', SetSignal SIGINT, SetSignal SIGTERM,
       Log DEBUG [Txt ''Signal handlers configured''],
       Enter ''initialize_modules'',
       LoadAll (TTable [(''rfid'', TTable [(''type'', TStr ''PN532'')])]),
       DoAll ''setup'', DoAll ''enable'',
       Log INFO [Txt ''All modules initialized successfully''],
       Enter ''main_loop'',
       Log INFO [Txt (glyph_rocket @ '' ''), Txt ''doorlockd-client(version-unknown)'',
                 Txt '' entering main loop''],
       MainLoop, Enter ''shutdown'', Log INFO [Txt ''Initiating shutdown sequence...''],
       DoAll ''disable'', DoAll ''teardown'', Log INFO [Txt ''Normal shutdown completed'']]"
  by (simp add: method_defs comb_defs world_defs formatter_def)

lemma modules_disabled_with_logger:
  "fst (run disabled_env preset_logger) = Inr ()
   \<and> drop 20 (trace (snd (run disabled_env preset_logger))) =
      [Log WARNING [Txt ''Modules are disabled in configuration''],
       Enter ''shutdown'', Log INFO [Txt ''Initiating shutdown sequence...''],
       DoAll ''disable'', DoAll ''teardown'', Log INFO [Txt ''Normal shutdown completed'']]"
  by (simp add: method_defs comb_defs world_defs formatter_def)

section \<open>The claims\<close>

text \<open>
  C1. Every call of \<^verbatim>\<open>run\<close> executes \<^verbatim>\<open>shutdown\<close> exactly once, whatever the environment
  answers and whatever the data container holds at entry: the trace gains exactly one
  entry into \<^verbatim>\<open>shutdown\<close>, on every way out of the \<^verbatim>\<open>try\<close> block (normal return, the
  early return of the disabled branch, a failed module initialization, an exception
  during startup, a \<^verbatim>\<open>SystemExit\<close>). An execution is counted when the method is entered;
  it may itself end by raising.
\<close>

theorem run_shutdown_exactly_once:
  "count_list (trace (snd (run env s))) (Enter ''shutdown'')
     = count_list (trace s) (Enter ''shutdown'') + 1"
proof -
  from run_trace [of env s] obtain evs1 evs2 where
    t: "trace (snd (run env s)) = trace s @ Enter ''run'' # evs1 @ Enter ''shutdown'' # evs2"
    and p1: "list_all body_event evs1" and p2: "list_all shutdown_step_event evs2" by blast
  have "count_list evs1 (Enter ''shutdown'') = 0"
    by (rule count_zero [OF p1]) (simp add: body_event_def)
  moreover have "count_list evs2 (Enter ''shutdown'') = 0"
    by (rule count_zero [OF p2]) (simp add: shutdown_step_event_def)
  ultimately show ?thesis using t by simp
qed

text \<open>
  C2. When \<^verbatim>\<open>toml.load\<close> raises \<open>FileNotFoundError\<close> or \<open>TomlDecodeError\<close> and no
  module manager and no event bus exist yet, the process ends with exit status 1, still
  without a module manager and an event bus, and none of the steps of the shutdown
  sequence runs: the trace holds no \<open>DoAll\<close> and no log of the final reason.
  \<^verbatim>\<open>shutdown\<close> is entered from the \<^verbatim>\<open>finally\<close> block, and raises \<open>AttributeError\<close> at its
  first log call (no logger) or at \<^verbatim>\<open>dc.module.do_all\<close> (no module manager).
\<close>

theorem config_error_skips_shutdown_steps:
  assumes "toml_load env = Inl (FileNotFoundError d) \<or> toml_load env = Inl (TomlDecodeError d)"
    and "dc_module s = None" and "dc_e s = None"
  shows "exit_status (fst (run env s)) = 1
       \<and> dc_module (snd (run env s)) = None \<and> dc_e (snd (run env s)) = None
       \<and> trace (snd (run env s)) =
           trace s @ Enter ''run'' # Enter ''load_configuration'' # Enter ''shutdown'' #
             (case dc_logger s of
                None \<Rightarrow> []
              | Some l \<Rightarrow> [Log INFO [Txt ''Initiating shutdown sequence...'']])"
  using assms(2,3) by (simp add: run_config_error [OF assms(1,2)] split: option.splits)

text \<open>The witness of C2: \<^verbatim>\<open>main\<close> with \<^verbatim>\<open>config.ini\<close> missing.\<close>

theorem config_error_skips_shutdown_steps_witness:
  "exit_status (fst (main missing_config_env)) = 1
   \<and> dc_module (snd (main missing_config_env)) = None
   \<and> dc_e (snd (main missing_config_env)) = None
   \<and> trace (snd (main missing_config_env)) =
       [Enter ''run'', Enter ''load_configuration'', Enter ''shutdown'']"
  using config_error_skips_shutdown_steps
    [of missing_config_env "''config.ini''" "init missing_config_env"]
  by (simp add: main_def world_defs)

text \<open>
  C3 states that every run with a valid configuration performs the startup steps in
  order. The code at a valid configuration: \<^verbatim>\<open>load_configuration\<close> raises
  \<open>AttributeError\<close> at its success log call, the handler of \<^verbatim>\<open>run\<close> raises again at
  \<^verbatim>\<open>dc.logger.critical\<close>, \<^verbatim>\<open>shutdown\<close> raises at its first log call; no startup step
  after \<^verbatim>\<open>load_configuration\<close> is entered.
\<close>

theorem valid_config_startup_aborts:
  "fst (main sample_env) = Inl (AttributeError ''info'')
   \<and> exit_status (fst (main sample_env)) = 1
   \<and> trace (snd (main sample_env)) =
       [Enter ''run'', Enter ''load_configuration'', Enter ''shutdown'']
   \<and> dc_logger (snd (main sample_env)) = None
   \<and> dc_e (snd (main sample_env)) = None
   \<and> dc_module (snd (main sample_env)) = None"
proof -
  have "toml_load sample_env = Inr sample_config"
    by (simp add: sample_env_def)
  from main_valid_config [OF this] show ?thesis
    by (simp add: init_def setup_data_container_def)
qed

text \<open>
  C4 as stated fails where it says that all loaded modules still receive Disable and
  Teardown: \<^verbatim>\<open>shutdown\<close> has no handler of its own, so when \<^verbatim>\<open>do_all("disable")\<close> raises
  after the failed setup, Teardown is never applied and \<^verbatim>\<open>run\<close> ends with that
  exception.
\<close>

theorem init_error_teardown_skipped_counterexample:
  "fst (run failing_setup_and_disable_env preset_logger) = Inl (OtherException ''bang'')
   \<and> exit_status (fst (run failing_setup_and_disable_env preset_logger)) = 1
   \<and> drop 20 (trace (snd (run failing_setup_and_disable_env preset_logger))) =
       [Enter ''initialize_modules'',
        LoadAll (TTable [(''rfid'', TTable [(''type'', TStr ''PN532'')])]),
        DoAll ''setup'',
        Log ERROR [Txt ''Failed to initialize modules: '', Err (OtherException ''boom'')],
        Enter ''shutdown'', Log INFO [Txt ''Initiating shutdown sequence...''],
        DoAll ''disable'']
   \<and> DoAll ''teardown'' \<notin> set (trace (snd (run failing_setup_and_disable_env preset_logger)))"
  by (simp add: method_defs comb_defs world_defs failing_setup_and_disable_env_def)

text \<open>
  C4, amended. In a run whose initialization sequence has completed with modules
  enabled, let \<open>e\<close> be the first exception raised by \<^verbatim>\<open>load_all\<close>, \<^verbatim>\<open>do_all("setup")\<close>
  or \<^verbatim>\<open>do_all("enable")\<close>, an instance of \<^verbatim>\<open>Exception\<close>. Then the error is logged, no
  later phase of the initialization and no operational loop follow, and the rest of
  the run is exactly the shutdown sequence: Disable is applied; Teardown is applied
  when the Disable application returns; the reason is logged and \<^verbatim>\<open>run\<close> returns
  normally when both return, and otherwise \<^verbatim>\<open>run\<close> ends with the exception of the
  shutdown phase that raised.
\<close>

theorem init_error_goes_to_shutdown:
  assumes init: "initialization_sequence env (s\<lparr>trace := trace s @ [Enter ''run'']\<rparr>) = (Inr (), s1)"
    and enabled: "doorlockd_lookup (dc_config s1) ''enable_modules'' = Inr v"
      "truthy (get_default v (TBool True))"
    and c: "c = get_default (map_of (dc_config s1) ''module'') (TTable [])"
    and err: "init_error env c = Some e" and exc: "is_Exception e"
    and mid: "mid = s1\<lparr>trace := trace s1 @ Enter ''initialize_modules'' # init_calls env c @
              [Log ERROR [Txt ''Failed to initialize modules: '', Err e]]\<rparr>"
  shows "run env s = shutdown env mid
       \<and> (\<exists>pre. list_all startup_event pre \<and> trace s1 = trace s @ Enter ''run'' # pre)
       \<and> run env s =
           (case do_all env ''disable'' of
              Some x \<Rightarrow>
                (Inl x, mid\<lparr>trace := trace mid @ [Enter ''shutdown'',
                   Log INFO [Txt ''Initiating shutdown sequence...''], DoAll ''disable'']\<rparr>)
            | None \<Rightarrow>
                (case do_all env ''teardown'' of
                   Some x \<Rightarrow>
                     (Inl x, mid\<lparr>trace := trace mid @ [Enter ''shutdown'',
                        Log INFO [Txt ''Initiating shutdown sequence...''], DoAll ''disable'',
                        DoAll ''teardown'']\<rparr>)
                 | None \<Rightarrow>
                     (Inr (), mid\<lparr>trace := trace mid @ [Enter ''shutdown'',
                        Log INFO [Txt ''Initiating shutdown sequence...''], DoAll ''disable'',
                        DoAll ''teardown'', final_reason_log env]\<rparr>)))"
proof -
  from initialization_sequence_Inr [OF init] obtain l where
    l: "dc_logger s1 = Some l" and m: "dc_module s1 = Some ModuleManager" by auto
  have im: "initialize_modules env s1 = (Inr False, mid)"
    using initialize_modules_error [OF l m] err exc c mid by simp
  have "try_catch (initialize_and_run env) fatal_startup_error s1 = (Inr (), mid)"
    using enabled im
    by (simp add: initialize_and_run_def try_catch_def bind_def ret_def doorlockd_get_def)
  then have r: "run env s = shutdown env mid"
    unfolding run_after_initialization [OF init]
    by (simp add: try_finally_def split: prod.splits sum.splits)
  from addsD [OF adds_initialization_sequence, of env "s\<lparr>trace := trace s @ [Enter ''run'']\<rparr>"] init
  have pre: "\<exists>pre. list_all startup_event pre \<and> trace s1 = trace s @ Enter ''run'' # pre"
    by auto
  have lm: "dc_logger mid = Some l" "dc_module mid = Some ModuleManager"
    using l m mid by simp_all
  from r pre shutdown_exact [OF lm, of env] show ?thesis by simp
qed

text \<open>The witness of C4: \<^verbatim>\<open>do_all("setup")\<close> raises, the shutdown phases return.\<close>

theorem init_error_goes_to_shutdown_witness:
  "fst (run failing_setup_env preset_logger) = Inr ()
   \<and> drop 20 (trace (snd (run failing_setup_env preset_logger))) =
       [Enter ''initialize_modules'',
        LoadAll (TTable [(''rfid'', TTable [(''type'', TStr ''PN532'')])]),
        DoAll ''setup'',
        Log ERROR [Txt ''Failed to initialize modules: '', Err (OtherException ''boom'')],
        Enter ''shutdown'', Log INFO [Txt ''Initiating shutdown sequence...''],
        DoAll ''disable'', DoAll ''teardown'', Log INFO [Txt ''Normal shutdown completed'']]"
proof -
  let ?s0 = "preset_logger\<lparr>trace := trace preset_logger @ [Enter ''run'']\<rparr>"
  let ?s1 = "snd (initialization_sequence failing_setup_env ?s0)"
  let ?c = "TTable [(''rfid'', TTable [(''type'', TStr ''PN532'')])]"
  let ?mid = "?s1\<lparr>trace := trace ?s1 @ Enter ''initialize_modules'' #
      init_calls failing_setup_env ?c @
      [Log ERROR [Txt ''Failed to initialize modules: '', Err (OtherException ''boom'')]]\<rparr>"
  have f: "fst (initialization_sequence failing_setup_env ?s0) = Inr ()"
    by (simp add: method_defs comb_defs world_defs)
  have i: "initialization_sequence failing_setup_env ?s0 = (Inr (), ?s1)"
    using f by (simp add: prod_eq_iff)
  have cfg: "dc_config ?s1 = sample_config"
    by (simp add: method_defs comb_defs world_defs)
  have tr: "length (trace ?s1) = 20"
    by (simp add: method_defs comb_defs world_defs)
  have en: "doorlockd_lookup (dc_config ?s1) ''enable_modules'' = Inr None"
    unfolding cfg by (simp add: doorlockd_lookup_def sample_config_def)
  have t: "truthy (get_default None (TBool True))"
    by (simp add: get_default_def)
  have c: "?c = get_default (map_of (dc_config ?s1) ''module'') (TTable [])"
    unfolding cfg by (simp add: get_default_def sample_config_def)
  have e: "init_error failing_setup_env ?c = Some (OtherException ''boom'')"
    by (simp add: init_error_def failing_setup_env_def sample_env_def quiet_env_def)
  have x: "is_Exception (OtherException ''boom'')" by simp
  have d: "do_all failing_setup_env ''disable'' = None"
    "do_all failing_setup_env ''teardown'' = None"
    by (simp_all add: failing_setup_env_def sample_env_def quiet_env_def)
  have ic: "init_calls failing_setup_env ?c = [LoadAll ?c, DoAll ''setup'']"
    by (simp add: init_calls_def failing_setup_env_def sample_env_def quiet_env_def)
  have fr: "final_reason_log failing_setup_env = Log INFO [Txt ''Normal shutdown completed'']"
    by (simp add: final_reason_log_def truthy_msg_def failing_setup_env_def sample_env_def
          quiet_env_def)
  note th = init_error_goes_to_shutdown [OF i en t c e x refl, THEN conjunct2, THEN conjunct2,
    unfolded d]
  from th
  have "run failing_setup_env preset_logger =
      (Inr (), ?mid\<lparr>trace := trace ?mid @ [Enter ''shutdown'',
         Log INFO [Txt ''Initiating shutdown sequence...''], DoAll ''disable'',
         DoAll ''teardown'', final_reason_log failing_setup_env]\<rparr>)"
    by simp
  then show ?thesis
    unfolding ic fr using tr by simp
qed

text \<open>
  C5 states that with \<^verbatim>\<open>enable_modules = false\<close> a warning is logged and the process
  exits with status 0. The code at such a configuration: no warning is logged and the
  process ends with \<open>AttributeError\<close>, exit status 1.
\<close>

theorem modules_disabled_run_aborts:
  "fst (main disabled_env) = Inl (AttributeError ''info'')
   \<and> exit_status (fst (main disabled_env)) = 1
   \<and> trace (snd (main disabled_env)) =
       [Enter ''run'', Enter ''load_configuration'', Enter ''shutdown'']"
proof -
  have "toml_load disabled_env =
          Inr [(''doorlockd'', TTable [(''enable_modules'', TBool False)])]"
    by (simp add: disabled_env_def)
  from main_valid_config [OF this] show ?thesis
    by simp
qed

text \<open>
  C6 as stated fails twice. When \<^verbatim>\<open>do_all("disable")\<close> raises, \<^verbatim>\<open>shutdown\<close> ends there:
  no teardown, no log of the reason. And entered without a logger, as from \<^verbatim>\<open>main\<close>, it
  raises at its first log call, before any phase.
\<close>

theorem shutdown_incomplete_counterexample:
  "shutdown failing_disable_env ready_state =
     (Inl (OtherException ''bang''),
      ready_state\<lparr>trace := [Enter ''shutdown'',
         Log INFO [Txt ''Initiating shutdown sequence...''], DoAll ''disable'']\<rparr>)
   \<and> shutdown quiet_env (init quiet_env) =
     (Inl (AttributeError ''info''), (init quiet_env)\<lparr>trace := [Enter ''shutdown'']\<rparr>)"
  by (simp add: method_defs comb_defs world_defs failing_disable_env_def)

text \<open>
  C6, amended. Entered with a logger and a module manager, \<^verbatim>\<open>shutdown\<close> applies the
  disable phase; when that application returns, the teardown phase; and when that
  returns too, it logs the final reason: at warning level when \<^verbatim>\<open>abort_msg\<close> is set,
  at info level when \<^verbatim>\<open>exit_msg\<close> is set, and the info-level normal-shutdown message
  otherwise. A phase application that raises ends the sequence with its exception.
\<close>

theorem shutdown_sequence:
  assumes "dc_logger s = Some l" and "dc_module s = Some m"
  shows "shutdown env s =
     (case do_all env ''disable'' of
        Some e \<Rightarrow>
          (Inl e, s\<lparr>trace := trace s @ [Enter ''shutdown'',
             Log INFO [Txt ''Initiating shutdown sequence...''], DoAll ''disable'']\<rparr>)
      | None \<Rightarrow>
          (case do_all env ''teardown'' of
             Some e \<Rightarrow>
               (Inl e, s\<lparr>trace := trace s @ [Enter ''shutdown'',
                  Log INFO [Txt ''Initiating shutdown sequence...''], DoAll ''disable'',
                  DoAll ''teardown'']\<rparr>)
           | None \<Rightarrow>
               (Inr (), s\<lparr>trace := trace s @ [Enter ''shutdown'',
                  Log INFO [Txt ''Initiating shutdown sequence...''], DoAll ''disable'',
                  DoAll ''teardown'',
                  (if truthy_msg (abort_msg env)
                   then Log WARNING [Txt ''Shutdown due to abort: '', Txt (msg_text (abort_msg env))]
                   else if truthy_msg (exit_msg env)
                   then Log INFO [Txt ''Shutdown requested: '', Txt (msg_text (exit_msg env))]
                   else Log INFO [Txt ''Normal shutdown completed''])]\<rparr>)))"
  unfolding shutdown_exact [OF assms, of env] final_reason_log_def ..

text \<open>The witness of C6: both messages set, the abort is reported, at warning level.\<close>

theorem shutdown_sequence_witness:
  "shutdown (quiet_env\<lparr>abort_msg := Some ''Uncaught exception in thread: boom'',
                       exit_msg := Some ''Received SIGINT''\<rparr>) ready_state =
     (Inr (), ready_state\<lparr>trace := [Enter ''shutdown'',
        Log INFO [Txt ''Initiating shutdown sequence...''], DoAll ''disable'',
        DoAll ''teardown'',
        Log WARNING [Txt ''Shutdown due to abort: '', Txt ''Uncaught exception in thread: boom'']]\<rparr>)"
  using shutdown_sequence [of ready_state "\<lparr>lg_handlers = [], lg_level = 30\<rparr>" ModuleManager
    "quiet_env\<lparr>abort_msg := Some ''Uncaught exception in thread: boom'',
               exit_msg := Some ''Received SIGINT''\<rparr>"]
  by (simp add: world_defs truthy_msg_def msg_text_def)

text \<open>
  C9. \<^verbatim>\<open>dc.logger\<close> is \<^verbatim>\<open>None\<close> after \<^verbatim>\<open>__init__\<close>; \<^verbatim>\<open>load_configuration\<close> never assigns
  it, and \<^verbatim>\<open>setup_logging\<close> assigns it only on the way to a normal return. So the
  success log call of \<^verbatim>\<open>load_configuration\<close> raises \<open>AttributeError\<close> after a
  successful parse, the file-handler branch of \<^verbatim>\<open>setup_logging\<close> never completes and
  raises \<open>AttributeError\<close> at its confirmation call when that call is reached, and
  every run of \<^verbatim>\<open>main\<close> ends with \<open>AttributeError\<close> and the logger still \<^verbatim>\<open>None\<close>.
\<close>

theorem logger_none_until_assigned:
  "dc_logger (init env) = None
   \<and> dc_logger (snd (load_configuration env s)) = dc_logger s
   \<and> (fst (setup_logging env s) \<noteq> Inr () \<longrightarrow>
        dc_logger (snd (setup_logging env s)) = dc_logger s)
   \<and> (dc_logger s = None \<longrightarrow> toml_load env = Inr cfg \<longrightarrow>
        load_configuration env s =
          (Inl (AttributeError ''info''),
           s\<lparr>dc_config := cfg, trace := trace s @ [Enter ''load_configuration'']\<rparr>))
   \<and> (dc_logger s = None \<longrightarrow> fst (file_logging env n s) \<noteq> Inr ())
   \<and> (dc_logger s = None \<longrightarrow> file_handler env name = None \<longrightarrow>
        doorlockd_lookup (dc_config s) ''logfile_level'' = Inr v \<longrightarrow>
        level_of (get_default v (TStr ''INFO'')) = Inr lv \<longrightarrow>
        fst (file_logging env (TStr name) s) = Inl (AttributeError ''info''))
   \<and> fst (main env) = Inl (AttributeError ''info'')
   \<and> dc_logger (snd (main env)) = None"
proof -
  have 1: "dc_logger (init env) = None"
    by (simp add: init_def setup_data_container_def)
  have 2: "dc_logger (snd (load_configuration env s)) = dc_logger s"
    using keeps_load_configuration(1) [of env] by (simp add: keeps_def)
  have 3: "fst (setup_logging env s) \<noteq> Inr () \<longrightarrow>
             dc_logger (snd (setup_logging env s)) = dc_logger s"
  proof
    assume a: "fst (setup_logging env s) \<noteq> Inr ()"
    obtain r s' where rs: "setup_logging env s = (r, s')" by (cases "setup_logging env s")
    with a obtain e where "r = Inl e" by (cases r) auto
    with rs setup_logging_Inl [of env s e s'] show
      "dc_logger (snd (setup_logging env s)) = dc_logger s" by simp
  qed
  have 4: "dc_logger s = None \<longrightarrow> toml_load env = Inr cfg \<longrightarrow>
        load_configuration env s =
          (Inl (AttributeError ''info''),
           s\<lparr>dc_config := cfg, trace := trace s @ [Enter ''load_configuration'']\<rparr>)"
    by (simp add: load_configuration_def comb_defs toml_load_config_def log_def)
  have 5: "dc_logger s = None \<longrightarrow> fst (file_logging env n s) \<noteq> Inr ()"
    using file_logging_no_logger by blast
  have 6: "dc_logger s = None \<longrightarrow> file_handler env name = None \<longrightarrow>
        doorlockd_lookup (dc_config s) ''logfile_level'' = Inr v \<longrightarrow>
        level_of (get_default v (TStr ''INFO'')) = Inr lv \<longrightarrow>
        fst (file_logging env (TStr name) s) = Inl (AttributeError ''info'')"
    using file_logging_reached [of s env name v lv] by simp
  from 1 2 3 4 5 6 main_always_fails [of env] show ?thesis by blast
qed

text \<open>The witness of C9: a configuration that names a log file.\<close>

theorem logger_none_until_assigned_witness:
  "load_configuration logfile_env (init logfile_env) =
     (Inl (AttributeError ''info''),
      (init logfile_env)\<lparr>dc_config := logfile_config, trace := [Enter ''load_configuration'']\<rparr>)
   \<and> fst (file_logging logfile_env (TStr ''doorlockd.log'')
            ((init logfile_env)\<lparr>dc_config := logfile_config\<rparr>)) = Inl (AttributeError ''info'')
   \<and> fst (main logfile_env) = Inl (AttributeError ''info'')
   \<and> dc_logger (snd (main logfile_env)) = None"
proof -
  have a: "dc_logger (init logfile_env) = None"
    by (simp add: init_def setup_data_container_def)
  have b: "toml_load logfile_env = Inr logfile_config"
    by (simp add: logfile_env_def)
  have c: "file_handler logfile_env ''doorlockd.log'' = None"
    by (simp add: logfile_env_def quiet_env_def)
  have d: "doorlockd_lookup (dc_config ((init logfile_env)\<lparr>dc_config := logfile_config\<rparr>))
             ''logfile_level'' = Inr None"
    by (simp add: doorlockd_lookup_def logfile_config_def)
  have e: "level_of (get_default None (TStr ''INFO'')) = Inr 20"
    by (simp add: get_default_def upper_def upper_char_def logging_level_def)
  have t: "trace (init logfile_env) = []"
    by (simp add: init_def setup_data_container_def setup_application_info_def
          fresh_process_def)
  from logger_none_until_assigned
         [of logfile_env "init logfile_env" logfile_config "TStr ''x''" "''x''" None 20]
       logger_none_until_assigned
         [of logfile_env "(init logfile_env)\<lparr>dc_config := logfile_config\<rparr>" logfile_config
             "TStr ''doorlockd.log''" "''doorlockd.log''" None 20]
       a b c d e t
  show ?thesis by simp
qed

text \<open>
  C7. Whatever the interleaving of signals and uncaught thread exceptions, the first
  request is the recorded reason, every later request is discarded and kept as
  superseded, and an abort and an exit are never both set.
\<close>

theorem first_writer_wins:
  "reason (fold deliver [] new_manager) = NoReason
   \<and> reason (fold deliver (c # cs) new_manager) = requested c
   \<and> superseded (fold deliver (c # cs) new_manager) = map requested cs
   \<and> \<not> (abort_set (reason (fold deliver calls new_manager))
        \<and> exit_set (reason (fold deliver calls new_manager)))"
proof -
  have f: "reason (deliver c new_manager) = requested c"
    "superseded (deliver c new_manager) = []"
    by (simp_all add: deliver_request request_def new_manager_def)
  with requested_set [of c] have "reason (deliver c new_manager) \<noteq> NoReason" by simp
  from deliver_after_first [OF this, of cs] f
  have "reason (fold deliver (c # cs) new_manager) = requested c"
    "superseded (fold deliver (c # cs) new_manager) = map requested cs" by simp_all
  then show ?thesis by (simp add: new_manager_def not_both)
qed

text \<open>
  C8 as stated fails twice. With \<^verbatim>\<open>stderr_level = "loud"\<close> logging setup raises before any
  handler is added, so no console handler is installed. With \<^verbatim>\<open>logfile_name = ""\<close> the
  key is configured, setup returns normally, and no file handler is installed.
\<close>

theorem logging_setup_counterexample:
  "fst (setup_logging quiet_env ((init quiet_env)\<lparr>dc_config := loud_config\<rparr>))
     = Inl (AttributeError ''LOUD'')
   \<and> lg_handlers (root_logger (snd (setup_logging quiet_env
         ((init quiet_env)\<lparr>dc_config := loud_config\<rparr>)))) = []
   \<and> doorlockd_lookup empty_name_config ''logfile_name'' = Inr (Some (TStr []))
   \<and> fst (setup_logging quiet_env ((init quiet_env)\<lparr>dc_config := empty_name_config\<rparr>))
       = Inr ()
   \<and> lg_handlers (root_logger (snd (setup_logging quiet_env
         ((init quiet_env)\<lparr>dc_config := empty_name_config\<rparr>)))) =
       [\<lparr>h_stream = Console, h_level = 20, h_formatter = formatter\<rparr>]"
  by (simp add: method_defs comb_defs world_defs loud_config_def empty_name_config_def)

text \<open>
  C8, amended. Whenever \<^verbatim>\<open>setup_logging\<close> returns normally, it has added to the root
  logger a console handler whose threshold is the level named by \<^verbatim>\<open>stderr_level\<close>, and
  after it a file handler if and only if \<^verbatim>\<open>logfile_name\<close> is configured with a truthy
  (non-empty) value, with the threshold named by \<^verbatim>\<open>logfile_level\<close>; an absent level key
  means INFO (20); \<^verbatim>\<open>dc.logger\<close> is the root logger; and a handler with this formatter
  renders a record as timestamp, component, level and message joined by \<^verbatim>\<open>" - "\<close>.
\<close>

theorem setup_logging_handlers:
  assumes "setup_logging env s = (Inr (), s1)"
  shows "(\<exists>v lv n. doorlockd_lookup (dc_config s) ''stderr_level'' = Inr v
           \<and> level_of (get_default v (TStr ''INFO'')) = Inr lv
           \<and> doorlockd_lookup (dc_config s) ''logfile_name'' = Inr n
           \<and> (if file_configured n
               then \<exists>name w lvf. n = Some (TStr name)
                   \<and> doorlockd_lookup (dc_config s) ''logfile_level'' = Inr w
                   \<and> level_of (get_default w (TStr ''INFO'')) = Inr lvf
                   \<and> lg_handlers (root_logger s1) =
                       lg_handlers (root_logger s) @
                         [\<lparr>h_stream = Console, h_level = lv, h_formatter = formatter\<rparr>,
                          \<lparr>h_stream = File name, h_level = lvf, h_formatter = formatter\<rparr>]
               else lg_handlers (root_logger s1) =
                       lg_handlers (root_logger s) @
                         [\<lparr>h_stream = Console, h_level = lv, h_formatter = formatter\<rparr>]))
       \<and> level_of (get_default None (TStr ''INFO'')) = Inr 20
       \<and> dc_logger s1 = Some (root_logger s1)
       \<and> (\<forall>h. h_formatter h = formatter \<longrightarrow>
             format_line h asctime name levelname message =
               Some (asctime @ '' - '' @ name @ '' - '' @ levelname @ '' - '' @ message))"
proof -
  let ?s0 = "s\<lparr>trace := trace s @ [Enter ''setup_logging'']\<rparr>"
  from assms obtain a b c d where
    1: "console_logging ?s0 = (Inr (), a)" and
    2: "file_logging_if_configured env a = (Inr (), b)" and
    3: "set_overall_level b = (Inr (), c)" and
    4: "assign_logger c = (Inr (), d)" and
    5: "warn_deprecated d = (Inr (), s1)"
    unfolding setup_logging_def by (auto dest!: seq_Inr simp: emit_def)
  from console_logging_Inr_handlers [OF 1] obtain v lv where
    v: "doorlockd_lookup (dc_config s) ''stderr_level'' = Inr v"
    and lv: "level_of (get_default v (TStr ''INFO'')) = Inr lv"
    and ha: "lg_handlers (root_logger a) =
               lg_handlers (root_logger s) @
                 [\<lparr>h_stream = Console, h_level = lv, h_formatter = formatter\<rparr>]"
    by auto
  have ca: "dc_config a = dc_config s"
    using keepsD [OF keeps_console_logging(3) 1] by simp
  from file_logging_if_configured_Inr [OF 2, unfolded ca] obtain n where
    n: "doorlockd_lookup (dc_config s) ''logfile_name'' = Inr n"
    and f: "if file_configured n
             then \<exists>name w lvf. n = Some (TStr name)
                 \<and> doorlockd_lookup (dc_config s) ''logfile_level'' = Inr w
                 \<and> level_of (get_default w (TStr ''INFO'')) = Inr lvf
                 \<and> lg_handlers (root_logger b) =
                     lg_handlers (root_logger a) @
                       [\<lparr>h_stream = File name, h_level = lvf, h_formatter = formatter\<rparr>]
             else lg_handlers (root_logger b) = lg_handlers (root_logger a)"
    by blast
  have h1: "lg_handlers (root_logger s1) = lg_handlers (root_logger b)"
    using keepsD [OF keeps_handlers(1) 3] keepsD [OF keeps_handlers(2) 4]
      keepsD [OF keeps_handlers(3) 5] by simp
  have A: "\<exists>v lv n. doorlockd_lookup (dc_config s) ''stderr_level'' = Inr v
           \<and> level_of (get_default v (TStr ''INFO'')) = Inr lv
           \<and> doorlockd_lookup (dc_config s) ''logfile_name'' = Inr n
           \<and> (if file_configured n
               then \<exists>name w lvf. n = Some (TStr name)
                   \<and> doorlockd_lookup (dc_config s) ''logfile_level'' = Inr w
                   \<and> level_of (get_default w (TStr ''INFO'')) = Inr lvf
                   \<and> lg_handlers (root_logger s1) =
                       lg_handlers (root_logger s) @
                         [\<lparr>h_stream = Console, h_level = lv, h_formatter = formatter\<rparr>,
                          \<lparr>h_stream = File name, h_level = lvf, h_formatter = formatter\<rparr>]
               else lg_handlers (root_logger s1) =
                       lg_handlers (root_logger s) @
                         [\<lparr>h_stream = Console, h_level = lv, h_formatter = formatter\<rparr>])"
    using v lv n f ha h1
    by (intro exI [of _ v] exI [of _ lv] exI [of _ n]) (auto split: if_splits)
  have B: "level_of (get_default None (TStr ''INFO'')) = Inr 20"
    by (simp add: get_default_def upper_def upper_char_def logging_level_def)
  have C: "dc_logger s1 = Some (root_logger s1)"
    using setup_logging_Inr [OF assms] .
  have D: "\<forall>h. h_formatter h = formatter \<longrightarrow>
             format_line h asctime name levelname message =
               Some (asctime @ '' - '' @ name @ '' - '' @ levelname @ '' - '' @ message)"
    using format_line_formatter by blast
  from A B C D show ?thesis by blast
qed

text \<open>The witness of C8: a log file is configured and the logger is already set.\<close>

theorem setup_logging_handlers_witness:
  "lg_handlers (root_logger (snd (setup_logging logfile_env
      (preset_logger\<lparr>dc_config := logfile_config\<rparr>)))) =
     [\<lparr>h_stream = Console, h_level = 20, h_formatter = formatter\<rparr>,
      \<lparr>h_stream = File ''doorlockd.log'', h_level = 20, h_formatter = formatter\<rparr>]
   \<and> format_line \<lparr>h_stream = Console, h_level = 20, h_formatter = formatter\<rparr>
        ''2026-11-03 10:00:00,000'' ''root'' ''INFO'' ''Signal handlers configured''
       = Some ''2026-11-03 10:00:00,000 - root - INFO - Signal handlers configured''"
proof -
  let ?s = "preset_logger\<lparr>dc_config := logfile_config\<rparr>"
  let ?s1 = "snd (setup_logging logfile_env ?s)"
  have "fst (setup_logging logfile_env ?s) = Inr ()"
    by (simp add: method_defs comb_defs world_defs logfile_env_def logfile_config_def)
  then have ok: "setup_logging logfile_env ?s = (Inr (), ?s1)"
    by (simp add: prod_eq_iff)
  have c: "dc_config ?s = logfile_config" by simp
  have r: "lg_handlers (root_logger ?s) = []"
    by (simp add: world_defs)
  have l: "doorlockd_lookup logfile_config ''stderr_level'' = Inr None"
    "doorlockd_lookup logfile_config ''logfile_name'' = Inr (Some (TStr ''doorlockd.log''))"
    "doorlockd_lookup logfile_config ''logfile_level'' = Inr None"
    by (simp_all add: doorlockd_lookup_def logfile_config_def)
  have d: "level_of (get_default None (TStr ''INFO'')) = Inr 20"
    by (simp add: get_default_def upper_def upper_char_def logging_level_def)
  from setup_logging_handlers [OF ok, of "''2026-11-03 10:00:00,000''" "''root''" "''INFO''"
         "''Signal handlers configured''"]
  show ?thesis
    unfolding c r l by (simp add: d file_configured_def)
qed




end
